theory Spec2Isabelle
  imports Main
begin

section \<open>JSON documents as the Qt accessors read them\<close>

text \<open>
  Both units decode a frame with \<^verbatim>\<open>QJsonDocument::fromJson\<close> and then read it through the
  Qt accessors only. The model starts from the decoded document. A frame that does not
  parse is the null document \<open>JNull\<close> (Qt's null and undefined values are both \<open>JNull\<close>).
  An object is the list of its members in the key order in which \<^verbatim>\<open>QJsonObject\<close> and
  \<^verbatim>\<open>QVariantMap\<close> hold and iterate them. Numbers are the whole-valued ones; the fields
  the handlers read as numbers are read with \<^verbatim>\<open>toInt()\<close>.
\<close>

datatype json =
    JNull
  | JBool bool
  | JNumber int
  | JString string
  | JArray "json list"
  | JObject "(string \<times> json) list"

type_synonym QVariantMap = "(string \<times> json) list"

text \<open>\<^verbatim>\<open>QJsonValue::toString()\<close>: the string, or the empty string for any other value.\<close>

fun toString :: "json \<Rightarrow> string" where
  "toString (JString s) = s"
| "toString _ = []"

text \<open>
  \<^verbatim>\<open>QJsonValue::toInt()\<close>: the number when it fits a C++ \<^verbatim>\<open>int\<close>, the default 0 otherwise
  and for every value that is not a number.
\<close>

fun toInt :: "json \<Rightarrow> int" where
  "toInt (JNumber n) = (if - 2147483648 \<le> n \<and> n \<le> 2147483647 then n else 0)"
| "toInt _ = 0"

fun isArray :: "json \<Rightarrow> bool" where
  "isArray (JArray xs) = True"
| "isArray _ = False"

fun isObject :: "json \<Rightarrow> bool" where
  "isObject (JObject kvs) = True"
| "isObject _ = False"

fun isString :: "json \<Rightarrow> bool" where
  "isString (JString s) = True"
| "isString _ = False"

text \<open>\<^verbatim>\<open>toArray()\<close> and \<^verbatim>\<open>QVariant::value<QVariantList>()\<close>: empty for a value that is no array.\<close>

fun toArray :: "json \<Rightarrow> json list" where
  "toArray (JArray xs) = xs"
| "toArray _ = []"

text \<open>
  \<^verbatim>\<open>toObject()\<close>, \<^verbatim>\<open>toVariant().toMap()\<close> and \<^verbatim>\<open>QVariant::value<QVariantMap>()\<close>: empty for a
  value that is no object. \<^verbatim>\<open>canConvert<QVariantMap>()\<close> holds of the objects only
  (\<open>isObject\<close>), for the variants a JSON document produces.
\<close>

fun toMap :: "json \<Rightarrow> QVariantMap" where
  "toMap (JObject kvs) = kvs"
| "toMap _ = []"

definition keys :: "QVariantMap \<Rightarrow> string list" where
  "keys kvs = map fst kvs"

definition contains :: "QVariantMap \<Rightarrow> string \<Rightarrow> bool" where
  "contains kvs k = (k \<in> set (keys kvs))"

text \<open>\<^verbatim>\<open>obj.value(key)\<close> and \<^verbatim>\<open>doc[key]\<close>: the member, undefined when there is none.\<close>

definition valueOf :: "QVariantMap \<Rightarrow> string \<Rightarrow> json" where
  "valueOf kvs k = (case map_of kvs k of Some v \<Rightarrow> v | None \<Rightarrow> JNull)"

definition docField :: "json \<Rightarrow> string \<Rightarrow> json" where
  "docField doc k = valueOf (toMap doc) k"

text \<open>\<^verbatim>\<open>QJsonDocument::isEmpty()\<close>: the document holds no data.\<close>

fun isEmpty :: "json \<Rightarrow> bool" where
  "isEmpty (JObject kvs) = (kvs = [])"
| "isEmpty (JArray xs) = (xs = [])"
| "isEmpty _ = True"

section \<open>What a handler does besides changing the state\<close>

text \<open>A delegate is identified by its skill and its QML url; it holds a session data pointer.\<close>

record delegate =
  m_skillId :: string
  m_qmlUrl :: string
  m_sessionData :: bool

text \<open>
  Log lines, signals, transmissions and deferred deletions, in the order in which the code
  issues them. A \<open>Warning\<close> carries the literal text of the \<^verbatim>\<open>qWarning()\<close> line, without
  the values streamed after it.
\<close>

datatype effect =
    Warning string
  | SendTextMessage json
  | StartDetached string
  | SocketStatusChanged
  | SessionDataDeleteLater string
  | ModelDeleteLater string
  | BeginCreate string
  | CompleteCreate string
  | NullDereference
  | CurrentRequested delegate
  | DelegateEvent delegate string QVariantMap
  | DelegateDestroyed delegate

section \<open>MycroftController (mycroftcontroller.cpp)\<close>

datatype SocketState =
    UnconnectedState
  | HostLookupState
  | ConnectingState
  | ConnectedState
  | BoundState
  | ListeningState
  | ClosingState

datatype Status = Connecting | Open | Closing | Closed

record controller =
  m_webSocket :: SocketState
  m_reconnectTimer :: bool

text \<open>\<^verbatim>\<open>MycroftController::start\<close>: launches the loader and arms the reconnect timer.\<close>

definition start :: "controller \<Rightarrow> controller \<times> effect list" where
  "start c =
     (c\<lparr>m_reconnectTimer := True\<rparr>,
      [StartDetached ''mycroft-gui-core-loader'', SocketStatusChanged])"

definition onConnected :: "controller \<Rightarrow> controller \<times> effect list" where
  "onConnected c = (c\<lparr>m_reconnectTimer := False\<rparr>, [SocketStatusChanged])"

text \<open>\<^verbatim>\<open>MycroftController::status\<close>: an armed timer wins over the socket's state.\<close>

definition status :: "controller \<Rightarrow> Status" where
  "status c =
     (if m_reconnectTimer c then Connecting
      else (case m_webSocket c of
              ConnectingState \<Rightarrow> Connecting
            | BoundState \<Rightarrow> Connecting
            | HostLookupState \<Rightarrow> Connecting
            | UnconnectedState \<Rightarrow> Closed
            | ConnectedState \<Rightarrow> Open
            | ClosingState \<Rightarrow> Closing
            | ListeningState \<Rightarrow> Connecting))"

text \<open>\<^verbatim>\<open>MycroftController::sendRequest\<close>: the guard reads the socket's own state.\<close>

definition sendRequest :: "controller \<Rightarrow> json \<Rightarrow> effect list" where
  "sendRequest c j =
     (if m_webSocket c \<noteq> ConnectedState then [Warning ''mycroft connection not open!'']
      else [SendTextMessage j])"

text \<open>
  \<^verbatim>\<open>MycroftController::sendText\<close>: the document built from \<open>root\<close>; its serialisation
  (\<^verbatim>\<open>doc.toJson()\<close>) is left as the document itself.
\<close>

definition sendText :: "controller \<Rightarrow> string \<Rightarrow> effect list" where
  "sendText c message =
     sendRequest c
       (JObject [(''data'', JObject [(''utterances'', JArray [JString message])]),
                 (''type'', JString ''recognizer_loop:utterance'')])"

section \<open>Session data (sessiondatamap.h, sessiondatamodel.h)\<close>

text \<open>
  A property of a skill's session data holds either a plain variant or a pointer to a
  \<^verbatim>\<open>SessionDataModel\<close>, the ordered rows of a list-like property. A model is kept with
  the property that points to it; its deferred deletion is the effect \<open>ModelDeleteLater\<close>.
\<close>

datatype session_value =
    Plain json
  | Model "QVariantMap list"

type_synonym SessionDataMap = "string \<rightharpoonup> session_value"

text \<open>
  \<^verbatim>\<open>map->value(key).value<SessionDataModel *>()\<close>: the model a property points to, null when
  the property is unset or holds a plain variant.
\<close>

fun modelOf :: "session_value option \<Rightarrow> QVariantMap list option" where
  "modelOf (Some (Model rows)) = Some rows"
| "modelOf _ = None"

text \<open>
  Modelled from the spec: \<^verbatim>\<open>SessionDataMap::insertAndNotify\<close> is not among the sources. A
  SessionStore entry is a "mapping property-name \<rightarrow> Value"; a set "replaces the property
  wholesale".
\<close>

definition insertAndNotify :: "string \<Rightarrow> session_value \<Rightarrow> SessionDataMap \<Rightarrow> SessionDataMap" where
  "insertAndNotify k x m = m(k \<mapsto> x)"

text \<open>
  Modelled from the spec: \<^verbatim>\<open>SessionDataMap::clearAndNotify\<close> is not among the sources. The
  handler checks the skill and calls it; what the spec says of the property is then its
  part: "no-op with a reported error if \<open>property\<close> unset; otherwise removes that property,
  leaving other properties untouched".
\<close>

definition clearAndNotify :: "string \<Rightarrow> SessionDataMap \<Rightarrow> SessionDataMap \<times> effect list" where
  "clearAndNotify k m =
     (case m k of
        None \<Rightarrow> (m, [Warning ''property not set''])
      | Some x \<Rightarrow> (m(k := None), []))"

text \<open>
  Modelled from the spec: \<^verbatim>\<open>SessionDataModel::clear\<close> is not among the sources. For a
  row-collection that exists already, "existing rows are cleared and new rows inserted".
\<close>

definition clear :: "QVariantMap list \<Rightarrow> QVariantMap list" where
  "clear rows = []"

text \<open>
  Modelled from the spec: \<^verbatim>\<open>SessionDataModel::insertData\<close> is not among the sources. The
  "new rows inserted" go in at the given position, in their order.
\<close>

definition insertData :: "nat \<Rightarrow> QVariantMap list \<Rightarrow> QVariantMap list \<Rightarrow> QVariantMap list" where
  "insertData position list rows = take position rows @ list @ drop position rows"

section \<open>The view's state (abstractskillview.h, activeskillsmodel.h)\<close>

text \<open>
  \<open>m_skills\<close> and \<open>m_delegates\<close> are what \<^verbatim>\<open>m_activeSkillsModel\<close> holds: the ordered active
  skills and the registered delegates. \<open>m_skillData\<close> is the view's own hash from skill to
  session data.
\<close>

record view =
  m_skills :: "string list"
  m_delegates :: "delegate list"
  m_skillData :: "string \<rightharpoonup> SessionDataMap"

text \<open>
  Modelled from the spec: \<^verbatim>\<open>ActiveSkillsModel::rowCount\<close> is not among the sources (the
  class is not). ActiveSkillList is "the ordered, authoritative list of currently active
  skill identifiers"; the bounds of the spec are bounds on its \<open>length\<close>.
\<close>

definition rowCount :: "view \<Rightarrow> int" where
  "rowCount v = int (length (m_skills v))"

text \<open>
  Modelled from the spec: \<^verbatim>\<open>ActiveSkillsModel::skillIndex\<close> is not among the sources. Its
  index is valid for a skill that "is in ActiveSkillList".
\<close>

definition skillIndexValid :: "view \<Rightarrow> string \<Rightarrow> bool" where
  "skillIndexValid v sk = (sk \<in> set (m_skills v))"

text \<open>
  Modelled from the spec: \<^verbatim>\<open>ActiveSkillsModel::data\<close> and \<^verbatim>\<open>index\<close> are not among the
  sources. A row of the "ordered sequence of SkillId" holds its skill; outside the rows
  the index is invalid and the variant read from it gives the empty string.
\<close>

definition skillAt :: "view \<Rightarrow> int \<Rightarrow> string" where
  "skillAt v row = (if 0 \<le> row \<and> row < rowCount v then m_skills v ! nat row else [])"

text \<open>
  Modelled from the spec: \<^verbatim>\<open>ActiveSkillsModel::insertSkills\<close> is not among the sources.
  "Inserts in order at \<open>position\<close>, shifting subsequent entries right"; "uniqueness
  enforced by ActiveSkillList": an identifier that is active already, or repeated in the
  request, is left out.
\<close>

definition insertSkills :: "int \<Rightarrow> string list \<Rightarrow> view \<Rightarrow> view" where
  "insertSkills position skillList v =
     v\<lparr>m_skills :=
         take (nat position) (m_skills v)
         @ remdups (filter (\<lambda>sk. sk \<notin> set (m_skills v)) skillList)
         @ drop (nat position) (m_skills v)\<rparr>"

text \<open>
  Modelled from the spec: the entries a \<open>remove(position, count)\<close> takes out of the
  list, the \<open>count\<close> entries from \<open>position\<close> on (\<^verbatim>\<open>ActiveSkillsModel::removeRows\<close> is not
  among the sources).
\<close>

definition removedSkills :: "int \<Rightarrow> int \<Rightarrow> view \<Rightarrow> string list" where
  "removedSkills position count v = take (nat count) (drop (nat position) (m_skills v))"

text \<open>
  Modelled from the spec: \<^verbatim>\<open>ActiveSkillsModel::removeRows\<close> is not among the sources. It
  takes the removed entries out of the list and, for each removed entry, has to "destroy
  its Delegates before the structural removal completes".
\<close>

definition removeRows :: "int \<Rightarrow> int \<Rightarrow> view \<Rightarrow> view \<times> effect list" where
  "removeRows position count v =
     (v\<lparr>m_skills := take (nat position) (m_skills v)
                      @ drop (nat position + nat count) (m_skills v),
        m_delegates :=
          filter (\<lambda>d. m_skillId d \<notin> set (removedSkills position count v)) (m_delegates v)\<rparr>,
      map DelegateDestroyed
        (filter (\<lambda>d. m_skillId d \<in> set (removedSkills position count v)) (m_delegates v)))"

text \<open>
  Modelled from the spec: \<^verbatim>\<open>ActiveSkillsModel::moveRows\<close> is not among the sources.
  \<open>move(from, count, to)\<close> "performs the move atomically": the \<open>count\<close> entries from
  \<open>from\<close> are taken out and put back at \<open>to\<close>, in one step.
\<close>

definition moveRows :: "int \<Rightarrow> int \<Rightarrow> int \<Rightarrow> view \<Rightarrow> view" where
  "moveRows from count to v =
     (let block = take (nat count) (drop (nat from) (m_skills v));
          others = take (nat from) (m_skills v) @ drop (nat from + nat count) (m_skills v)
      in v\<lparr>m_skills := take (nat to) others @ block @ drop (nat to) others\<rparr>)"

text \<open>
  Modelled from the spec: \<^verbatim>\<open>ActiveSkillsModel::delegateForSkill\<close> is not among the
  sources. A Delegate is "a handle uniquely identified by (SkillId, viewTemplateUrl)";
  \<open>show\<close> looks whether "a Delegate for (skillId, viewTemplateUrl) already exists".
\<close>

definition delegateForSkill :: "view \<Rightarrow> string \<Rightarrow> string \<Rightarrow> delegate option" where
  "delegateForSkill v sk url =
     find (\<lambda>d. m_skillId d = sk \<and> m_qmlUrl d = url) (m_delegates v)"

text \<open>
  Modelled from the spec: \<^verbatim>\<open>ActiveSkillsModel::delegatesForSkill\<close> is not among the
  sources. An event goes "to all registered Delegates" for the reserved namespace, for
  which the handler passes the null string, and otherwise "only to Delegates owned by
  that skill".
\<close>

definition delegatesForSkill :: "view \<Rightarrow> string \<Rightarrow> delegate list" where
  "delegatesForSkill v sk =
     (if sk = [] then m_delegates v else filter (\<lambda>d. m_skillId d = sk) (m_delegates v))"

text \<open>
  Modelled from the spec: \<^verbatim>\<open>ActiveSkillsModel::insertDelegate\<close> is not among the sources.
  \<open>show\<close> has to "register" the new Delegate.
\<close>

definition insertDelegate :: "delegate \<Rightarrow> view \<Rightarrow> view" where
  "insertDelegate d v = v\<lparr>m_delegates := m_delegates v @ [d]\<rparr>"

text \<open>
  The QML engine, as far as the view reads it: \<^verbatim>\<open>QQmlComponent(engine, url)\<close> followed by
  \<^verbatim>\<open>beginCreate\<close> gives the component's errors and the object it created.
  \<^verbatim>\<open>isError()\<close> holds when the component has errors; \<^verbatim>\<open>qobject_cast<AbstractDelegate *>\<close>
  is null unless the object is an \<^verbatim>\<open>AbstractDelegate\<close>.
\<close>

datatype qobject = NullObject | OtherObject | AbstractDelegateObject

record QQmlComponent =
  errors :: "string list"
  created :: qobject

definition isError :: "QQmlComponent \<Rightarrow> bool" where
  "isError c = (errors c \<noteq> [])"

section \<open>AbstractSkillView (abstractskillview.cpp)\<close>

text \<open>
  \<^verbatim>\<open>AbstractSkillView::sessionDataForSkill\<close>: the skill's session data, created empty for
  an active skill that has none, null for a skill that is neither stored nor active.
\<close>

definition sessionDataForSkill :: "view \<Rightarrow> string \<Rightarrow> SessionDataMap option \<times> view" where
  "sessionDataForSkill v sk =
     (if m_skillData v sk \<noteq> None then (m_skillData v sk, v)
      else if skillIndexValid v sk then
        (Some Map.empty, v\<lparr>m_skillData := (m_skillData v)(sk \<mapsto> Map.empty)\<rparr>)
      else (None, v))"

text \<open>
  The session data a handler works on once it has checked that the skill is active: what
  \<open>sessionDataForSkill\<close> returns then, the stored data or the new empty one.
\<close>

definition storedData :: "view \<Rightarrow> string \<Rightarrow> SessionDataMap" where
  "storedData v sk = (case m_skillData v sk of Some m \<Rightarrow> m | None \<Rightarrow> Map.empty)"

text \<open>
  \<^verbatim>\<open>variantListToOrderedMap\<close>: the loop over \<open>data\<close>, with \<open>roleNames\<close>, \<open>ordMap\<close> and the
  log so far. An item that is no map ends the loop with the rows collected before it.
\<close>

fun variantListToOrderedMap_loop ::
  "string list \<Rightarrow> QVariantMap list \<Rightarrow> effect list \<Rightarrow> json list
     \<Rightarrow> QVariantMap list \<times> effect list" where
  "variantListToOrderedMap_loop roleNames ordMap log [] = (ordMap, log)"
| "variantListToOrderedMap_loop roleNames ordMap log (item # rest) =
     (if \<not> isObject item then
        (ordMap, log @ [Warning ''Error: Array data structure corrupted: ''])
      else if roleNames = [] then
        variantListToOrderedMap_loop (keys (toMap item)) (ordMap @ [toMap item]) log rest
      else if roleNames \<noteq> keys (toMap item) then
        variantListToOrderedMap_loop roleNames (ordMap @ [toMap item])
          (log @ [Warning ''WARNING: Item with a wrong set of roles encountered, some roles will be inaccessible from QML, expected: ''])
          rest
      else variantListToOrderedMap_loop roleNames (ordMap @ [toMap item]) log rest)"

definition variantListToOrderedMap :: "json list \<Rightarrow> QVariantMap list \<times> effect list" where
  "variantListToOrderedMap data = variantListToOrderedMap_loop [] [] [] data"

text \<open>
  \<^verbatim>\<open>jsonModelToStringList\<close>: the loop over the array, with \<open>items\<close> and the log so far. A
  bad item clears \<open>items\<close> and ends the loop.
\<close>

fun jsonModelToStringList_loop ::
  "string \<Rightarrow> string list \<Rightarrow> effect list \<Rightarrow> json list \<Rightarrow> string list \<times> effect list" where
  "jsonModelToStringList_loop key items log [] = (items, log)"
| "jsonModelToStringList_loop key items log (item # rest) =
     (if \<not> isObject item then
        ([], log @ [Warning ''Error: Array data structure currupted: ''])
      else if length (keys (toMap item)) \<noteq> 1 \<or> \<not> contains (toMap item) key then
        ([], log @ [Warning ''Error: Item with a wrong key encountered, expected: ''])
      else
        jsonModelToStringList_loop key (items @ [toString (valueOf (toMap item) key)])
          (if \<not> isString (valueOf (toMap item) key)
           then log @ [Warning ''Error: item in model not a string''] else log)
          rest)"

definition jsonModelToStringList :: "string \<Rightarrow> json \<Rightarrow> string list \<times> effect list" where
  "jsonModelToStringList key data =
     (if \<not> isArray data then ([], [Warning ''Error: Model data is not an Array''])
      else jsonModelToStringList_loop key [] [] (toArray data))"

subsection \<open>mycroft.session.set\<close>

text \<open>
  The body of the loop over \<open>data\<close> (lines 261-282), for one property \<open>(key, x)\<close> of the
  skill's session data \<open>m\<close>.
\<close>

fun setProperty :: "SessionDataMap \<times> effect list \<Rightarrow> string \<times> json \<Rightarrow> SessionDataMap \<times> effect list" where
  "setProperty (m, log) (key, x) =
     (case variantListToOrderedMap (toArray x) of
        (list, warnings) \<Rightarrow>
          (if list \<noteq> [] then
             (case modelOf (m key) of
                None \<Rightarrow>
                  (insertAndNotify key (Model (insertData 0 list [])) m, log @ warnings)
              | Some rows \<Rightarrow>
                  (m(key \<mapsto> Model (insertData 0 list (clear rows))), log @ warnings))
           else
             (case modelOf (m key) of
                None \<Rightarrow> (insertAndNotify key (Plain x) m, log @ warnings)
              | Some rows \<Rightarrow>
                  (insertAndNotify key (Plain x) m, log @ warnings @ [ModelDeleteLater key]))))"

definition session_set :: "view \<Rightarrow> json \<Rightarrow> view \<times> effect list" where
  "session_set v doc =
     (let skillId = toString (docField doc ''namespace'');
          data = toMap (docField doc ''data'')
      in if skillId = [] then (v, [Warning ''Empty skill_id in mycroft.session.set''])
         else if \<not> skillIndexValid v skillId then
           (v, [Warning ''Invalid skill_id in mycroft.session.set:''])
         else if data = [] then (v, [Warning ''Empty dtata in mycroft.session.set''])
         else
           (case sessionDataForSkill v skillId of
              (None, v1) \<Rightarrow> (v1, [NullDereference])
            | (Some m, v1) \<Rightarrow>
                (case foldl setProperty (m, []) data of
                   (m', log) \<Rightarrow> (v1\<lparr>m_skillData := (m_skillData v1)(skillId \<mapsto> m')\<rparr>, log))))"

subsection \<open>mycroft.session.delete\<close>

definition session_delete :: "view \<Rightarrow> json \<Rightarrow> view \<times> effect list" where
  "session_delete v doc =
     (let skillId = toString (docField doc ''namespace'');
          property = toString (docField doc ''property'')
      in if skillId = [] then (v, [Warning ''No skill_id provided in mycroft.session.delete''])
         else if \<not> skillIndexValid v skillId then
           (v, [Warning ''Invalid skill_id in mycroft.session.set:''])
         else if property = [] then
           (v, [Warning ''No property provided in mycroft.session.delete''])
         else
           (case sessionDataForSkill v skillId of
              (None, v1) \<Rightarrow> (v1, [NullDereference])
            | (Some m, v1) \<Rightarrow>
                (case clearAndNotify property m of
                   (m', log) \<Rightarrow> (v1\<lparr>m_skillData := (m_skillData v1)(skillId \<mapsto> m')\<rparr>, log))))"

subsection \<open>mycroft.gui.show\<close>

text \<open>
  The url is kept as the string it is built from: empty when the string is. In the branch
  of an object that is no \<^verbatim>\<open>AbstractDelegate\<close> the code calls \<^verbatim>\<open>deleteLater()\<close> through the
  null \<open>delegate\<close>: the effect \<open>NullDereference\<close>.
\<close>

definition gui_show :: "(string \<Rightarrow> QQmlComponent) \<Rightarrow> view \<Rightarrow> json \<Rightarrow> view \<times> effect list" where
  "gui_show engine v doc =
     (let skillId = toString (docField doc ''namespace'');
          delegateUrl = toString (docField doc ''gui_url'')
      in if skillId = [] then
           (v, [Warning ''Invalid mycroft.gui.show arrived with empty namespace''])
         else if delegateUrl = [] then
           (v, [Warning ''Invalid mycroft.gui.show arrived with empty gui_url''])
         else
           (case delegateForSkill v skillId delegateUrl of
              Some d \<Rightarrow> (v, [CurrentRequested d])
            | None \<Rightarrow>
                (if isError (engine delegateUrl) then
                   (v, BeginCreate delegateUrl # map Warning (errors (engine delegateUrl)))
                 else if created (engine delegateUrl) \<noteq> AbstractDelegateObject then
                   (v, [BeginCreate delegateUrl,
                        Warning ''ERROR: QML gui not a Mycroft.AbstractDelegate instance'',
                        NullDereference])
                 else
                   (case sessionDataForSkill v skillId of
                      (sessionData, v1) \<Rightarrow>
                        (insertDelegate
                           \<lparr>m_skillId = skillId, m_qmlUrl = delegateUrl,
                            m_sessionData = (sessionData \<noteq> None)\<rparr> v1,
                         [BeginCreate delegateUrl, CompleteCreate delegateUrl,
                          CurrentRequested
                            \<lparr>m_skillId = skillId, m_qmlUrl = delegateUrl,
                             m_sessionData = (sessionData \<noteq> None)\<rparr>])))))"

subsection \<open>mycroft.session.insert\<close>

definition session_insert :: "view \<Rightarrow> json \<Rightarrow> view \<times> effect list" where
  "session_insert v doc =
     (let position = toInt (docField doc ''position'')
      in if position < 0 \<or> position > rowCount v then
           (v, [Warning ''Invalid position in mycroft.session.insert''])
         else
           (case jsonModelToStringList ''skill_id'' (docField doc ''data'') of
              (skillList, log) \<Rightarrow>
                (if skillList = [] then
                   (v, log @ [Warning ''Error: no valid skills received in mycroft.session.insert''])
                 else (insertSkills position skillList v, log))))"

subsection \<open>mycroft.session.remove\<close>

text \<open>The block inside the loop (lines 401-407), for the skill of one row.\<close>

fun eraseSkillData :: "view \<times> effect list \<Rightarrow> string \<Rightarrow> view \<times> effect list" where
  "eraseSkillData (v, log) skillId =
     (case m_skillData v skillId of
        None \<Rightarrow> (v, log)
      | Some m \<Rightarrow>
          (v\<lparr>m_skillData := (m_skillData v)(skillId := None)\<rparr>,
           log @ [SessionDataDeleteLater skillId]))"

text \<open>
  The loop of lines 396-408: \<open>i\<close> runs from 0 while \<open>i < itemsNumber\<close> and reads the skill of row
  \<open>position + i\<close> from the model, which the loop does not change.
\<close>

definition removeSkillData :: "int \<Rightarrow> int \<Rightarrow> view \<Rightarrow> view \<times> effect list" where
  "removeSkillData position itemsNumber v =
     foldl (\<lambda>acc i. eraseSkillData acc (skillAt v (position + int i))) (v, [])
       [0 ..< nat itemsNumber]"

definition session_remove :: "view \<Rightarrow> json \<Rightarrow> view \<times> effect list" where
  "session_remove v doc =
     (let position = toInt (docField doc ''position'');
          itemsNumber = toInt (docField doc ''items_number'')
      in if position < 0 \<or> position > rowCount v - 1 then (v, [Warning ''Invalid position''])
         else if itemsNumber < 0 \<or> itemsNumber > rowCount v - position - 1 then
           (v, [Warning ''Invalid items_number''])
         else
           (case removeSkillData position itemsNumber v of
              (v1, log) \<Rightarrow>
                (case removeRows position itemsNumber v1 of
                   (v2, log2) \<Rightarrow> (v2, log @ log2))))"

subsection \<open>mycroft.session.move\<close>

definition session_move :: "view \<Rightarrow> json \<Rightarrow> view \<times> effect list" where
  "session_move v doc =
     (let from = toInt (docField doc ''from'');
          to = toInt (docField doc ''to'');
          itemsNumber = toInt (docField doc ''items_number'')
      in if from < 0 \<or> from > rowCount v - 1 then (v, [Warning ''Invalid from position''])
         else if to < 0 \<or> to > rowCount v - 1 then (v, [Warning ''Invalid to position''])
         else if itemsNumber \<le> 0 \<or> itemsNumber > rowCount v - from then
           (v, [Warning ''Invalid items_number''])
         else (moveRows from itemsNumber to v, []))"

subsection \<open>mycroft.events.triggered\<close>

definition events_triggered :: "view \<Rightarrow> json \<Rightarrow> view \<times> effect list" where
  "events_triggered v doc =
     (let skillOrSystem = toString (docField doc ''namespace'');
          eventName = toString (docField doc ''event_name'');
          data = toMap (docField doc ''data'')
      in if skillOrSystem = [] then
           (v, [Warning ''No namespace provided for mycroft.events.triggered''])
         else if skillOrSystem \<noteq> ''system'' \<and> \<not> skillIndexValid v skillOrSystem then
           (v, [Warning ''Invalid skill id passed as namespace for mycroft.events.triggered:''])
         else if eventName = [] then
           (v, [Warning ''No namespace provided for mycroft.events.triggered''])
         else
           (v, map (\<lambda>d. DelegateEvent d eventName data)
                 (delegatesForSkill v (if skillOrSystem = ''system'' then [] else skillOrSystem))))"

subsection \<open>The handler\<close>

text \<open>
  \<^verbatim>\<open>AbstractSkillView::onGuiSocketMessageReceived\<close>, from the decoded document on. The
  branches are tried in the order of the source; a type that matches none of them does
  nothing.
\<close>

definition onGuiSocketMessageReceived ::
  "(string \<Rightarrow> QQmlComponent) \<Rightarrow> view \<Rightarrow> json \<Rightarrow> view \<times> effect list" where
  "onGuiSocketMessageReceived engine v doc =
     (if isEmpty doc then
        (v, [Warning ''Empty or invalid JSON message arrived on the gui socket:''])
      else if toString (docField doc ''type'') = [] then
        (v, [Warning ''Empty type in the JSON message on the gui socket''])
      else if toString (docField doc ''type'') = ''mycroft.session.set'' then
        session_set v doc
      else if toString (docField doc ''type'') = ''mycroft.session.delete'' then
        session_delete v doc
      else if toString (docField doc ''type'') = ''mycroft.gui.show'' then
        gui_show engine v doc
      else if toString (docField doc ''type'') = ''mycroft.session.insert''
              \<and> toString (docField doc ''namespace'') = ''mycroft.system.active_skills'' then
        session_insert v doc
      else if toString (docField doc ''type'') = ''mycroft.session.remove''
              \<and> toString (docField doc ''namespace'') = ''mycroft.system.active_skills'' then
        session_remove v doc
      else if toString (docField doc ''type'') = ''mycroft.session.move'' then
        session_move v doc
      else if toString (docField doc ''type'') = ''mycroft.events.triggered'' then
        events_triggered v doc
      else (v, []))"

section \<open>Reading the message type\<close>

lemma toString_docField_not_isEmpty:
  "toString (docField doc k) \<noteq> [] \<Longrightarrow> \<not> isEmpty doc"
  by (cases doc) (auto simp add: docField_def valueOf_def)

lemma dispatch_set:
  "toString (docField doc ''type'') = ''mycroft.session.set''
   \<Longrightarrow> onGuiSocketMessageReceived engine v doc = session_set v doc"
  using toString_docField_not_isEmpty [of doc "''type''"]
  by (simp add: onGuiSocketMessageReceived_def)

lemma dispatch_delete:
  "toString (docField doc ''type'') = ''mycroft.session.delete''
   \<Longrightarrow> onGuiSocketMessageReceived engine v doc = session_delete v doc"
  using toString_docField_not_isEmpty [of doc "''type''"]
  by (simp add: onGuiSocketMessageReceived_def)

lemma dispatch_show:
  "toString (docField doc ''type'') = ''mycroft.gui.show''
   \<Longrightarrow> onGuiSocketMessageReceived engine v doc = gui_show engine v doc"
  using toString_docField_not_isEmpty [of doc "''type''"]
  by (simp add: onGuiSocketMessageReceived_def)

lemma dispatch_insert:
  "toString (docField doc ''type'') = ''mycroft.session.insert''
   \<Longrightarrow> toString (docField doc ''namespace'') = ''mycroft.system.active_skills''
   \<Longrightarrow> onGuiSocketMessageReceived engine v doc = session_insert v doc"
  using toString_docField_not_isEmpty [of doc "''type''"]
  by (simp add: onGuiSocketMessageReceived_def)

lemma dispatch_remove:
  "toString (docField doc ''type'') = ''mycroft.session.remove''
   \<Longrightarrow> toString (docField doc ''namespace'') = ''mycroft.system.active_skills''
   \<Longrightarrow> onGuiSocketMessageReceived engine v doc = session_remove v doc"
  using toString_docField_not_isEmpty [of doc "''type''"]
  by (simp add: onGuiSocketMessageReceived_def)

lemma dispatch_events:
  "toString (docField doc ''type'') = ''mycroft.events.triggered''
   \<Longrightarrow> onGuiSocketMessageReceived engine v doc = events_triggered v doc"
  using toString_docField_not_isEmpty [of doc "''type''"]
  by (simp add: onGuiSocketMessageReceived_def)

section \<open>Removing active skills: the bounds\<close>

text \<open>
  C1, evaluated on the code: with the three active skills \<open>a\<close>, \<open>b\<close>, \<open>c\<close>, a
  \<open>mycroft.session.remove\<close> of the two skills from position 1 on, the whole rest of the
  list and so a count of \<open>L - position\<close>, is rejected with the warning
  "Invalid items_number" and changes nothing. The guard of the code admits a count up to
  \<open>L - position - 1\<close> only.
\<close>

theorem remove_count_to_end_rejected:
  "onGuiSocketMessageReceived engine
     \<lparr>m_skills = [''a'', ''b'', ''c''], m_delegates = [], m_skillData = Map.empty\<rparr>
     (JObject [(''items_number'', JNumber 2),
               (''namespace'', JString ''mycroft.system.active_skills''),
               (''position'', JNumber 1),
               (''type'', JString ''mycroft.session.remove'')])
   = (\<lparr>m_skills = [''a'', ''b'', ''c''], m_delegates = [], m_skillData = Map.empty\<rparr>,
      [Warning ''Invalid items_number''])"
  by (simp add: onGuiSocketMessageReceived_def session_remove_def docField_def valueOf_def
        rowCount_def)

text \<open>The guards of the remove branch, read off the code: what is rejected.\<close>

lemma session_remove_rejected:
  "toInt (docField doc ''position'') < 0
   \<or> toInt (docField doc ''position'') > rowCount v - 1
   \<or> toInt (docField doc ''items_number'') < 0
   \<or> toInt (docField doc ''items_number'') > rowCount v - toInt (docField doc ''position'') - 1
   \<Longrightarrow> \<exists>w. session_remove v doc = (v, [Warning w])"
  by (auto simp add: session_remove_def Let_def)

lemma remove_scenario_rejected:
  "onGuiSocketMessageReceived engine
     \<lparr>m_skills = [''a'', ''b'', ''c''], m_delegates = [], m_skillData = Map.empty\<rparr>
     (JObject [(''items_number'', JNumber 5),
               (''namespace'', JString ''mycroft.system.active_skills''),
               (''position'', JNumber 1),
               (''type'', JString ''mycroft.session.remove'')])
   = (\<lparr>m_skills = [''a'', ''b'', ''c''], m_delegates = [], m_skillData = Map.empty\<rparr>,
      [Warning ''Invalid items_number''])"
  by (simp add: onGuiSocketMessageReceived_def session_remove_def docField_def valueOf_def
        rowCount_def)

text \<open>One skill fewer is accepted: the largest count the guard admits from position 1.\<close>

lemma remove_count_below_end_accepted:
  "onGuiSocketMessageReceived engine
     \<lparr>m_skills = [''a'', ''b'', ''c''], m_delegates = [], m_skillData = Map.empty\<rparr>
     (JObject [(''items_number'', JNumber 1),
               (''namespace'', JString ''mycroft.system.active_skills''),
               (''position'', JNumber 1),
               (''type'', JString ''mycroft.session.remove'')])
   = (\<lparr>m_skills = [''a'', ''c''], m_delegates = [], m_skillData = Map.empty\<rparr>, [])"
  by (simp add: onGuiSocketMessageReceived_def session_remove_def docField_def valueOf_def
        rowCount_def removeSkillData_def removeRows_def removedSkills_def skillAt_def)

section \<open>Updates for an inactive skill or with no data\<close>

lemma sessionDataForSkill_inactive:
  "\<not> skillIndexValid v sk \<Longrightarrow> snd (sessionDataForSkill v sk) = v"
  by (simp add: sessionDataForSkill_def)

text \<open>
  C5: a \<open>mycroft.session.set\<close> whose namespace is not an active skill, or whose data is
  empty, leaves the whole state as it is and logs one warning. No session data is
  created: \<open>sessionDataForSkill\<close> is not reached, and it creates nothing for an inactive
  skill either.
\<close>

theorem set_inactive_or_empty_is_noop:
  assumes "toString (docField doc ''type'') = ''mycroft.session.set''"
    and "\<not> skillIndexValid v (toString (docField doc ''namespace''))
         \<or> toMap (docField doc ''data'') = []"
  shows "(\<exists>w. onGuiSocketMessageReceived engine v doc = (v, [Warning w]))
         \<and> (\<not> skillIndexValid v sk \<longrightarrow> snd (sessionDataForSkill v sk) = v)"
proof -
  have "\<exists>w. session_set v doc = (v, [Warning w])"
    using assms(2) by (auto simp add: session_set_def Let_def)
  then show ?thesis
    using dispatch_set [OF assms(1)] sessionDataForSkill_inactive by simp
qed

theorem set_inactive_or_empty_is_noop_witness:
  "toString (docField (JObject [(''data'', JObject [(''temp'', JNumber 21)]),
                               (''namespace'', JString ''weather''),
                               (''type'', JString ''mycroft.session.set'')]) ''type'')
     = ''mycroft.session.set''
   \<and> \<not> skillIndexValid \<lparr>m_skills = [''timer''], m_delegates = [], m_skillData = Map.empty\<rparr>
         ''weather''
   \<and> (\<exists>w. onGuiSocketMessageReceived (\<lambda>url. \<lparr>errors = [], created = NullObject\<rparr>)
            \<lparr>m_skills = [''timer''], m_delegates = [], m_skillData = Map.empty\<rparr>
            (JObject [(''data'', JObject [(''temp'', JNumber 21)]),
                      (''namespace'', JString ''weather''),
                      (''type'', JString ''mycroft.session.set'')])
          = (\<lparr>m_skills = [''timer''], m_delegates = [], m_skillData = Map.empty\<rparr>,
             [Warning w]))
   \<and> snd (sessionDataForSkill
            \<lparr>m_skills = [''timer''], m_delegates = [], m_skillData = Map.empty\<rparr> ''weather'')
       = \<lparr>m_skills = [''timer''], m_delegates = [], m_skillData = Map.empty\<rparr>"
  using set_inactive_or_empty_is_noop
    [of "JObject [(''data'', JObject [(''temp'', JNumber 21)]),
                  (''namespace'', JString ''weather''),
                  (''type'', JString ''mycroft.session.set'')]"
        "\<lparr>m_skills = [''timer''], m_delegates = [], m_skillData = Map.empty\<rparr>"
        "\<lambda>url. \<lparr>errors = [], created = NullObject\<rparr>" "''weather''"]
  by (simp add: docField_def valueOf_def skillIndexValid_def)

section \<open>Inserting active skills: all or nothing\<close>

lemma jsonModelToStringList_loop_bad:
  "\<exists>e \<in> set xs. \<not> (isObject e \<and> set (keys (toMap e)) = {key})
   \<Longrightarrow> fst (jsonModelToStringList_loop key items log xs) = []"
proof (induction xs arbitrary: items log)
  case Nil
  then show ?case by simp
next
  case (Cons item rest)
  show ?case
  proof (cases "isObject item \<and> length (keys (toMap item)) = 1 \<and> contains (toMap item) key")
    case True
    then obtain k where k: "keys (toMap item) = [k]"
      by (cases "keys (toMap item)") auto
    with True have "set (keys (toMap item)) = {key}"
      by (simp add: contains_def)
    with True Cons.prems have "\<exists>e \<in> set rest. \<not> (isObject e \<and> set (keys (toMap e)) = {key})"
      by auto
    from Cons.IH [OF this] True show ?thesis by simp
  next
    case False
    then show ?thesis by auto
  qed
qed

text \<open>
  C9: a \<open>mycroft.session.insert\<close> for the active skills whose data array has an entry that
  is not an object with the key set \<open>{skill_id}\<close> leaves the whole state as it is, so no
  skill of the message is inserted, and logs a warning.
\<close>

theorem insert_is_all_or_nothing:
  assumes "toString (docField doc ''type'') = ''mycroft.session.insert''"
    and "toString (docField doc ''namespace'') = ''mycroft.system.active_skills''"
    and "\<exists>e \<in> set (toArray (docField doc ''data'')).
           \<not> (isObject e \<and> set (keys (toMap e)) = {''skill_id''})"
  shows "fst (onGuiSocketMessageReceived engine v doc) = v
         \<and> (\<exists>w. Warning w \<in> set (snd (onGuiSocketMessageReceived engine v doc)))"
proof -
  from assms(3) have arr: "isArray (docField doc ''data'')"
    by (cases "docField doc ''data''") auto
  have "fst (jsonModelToStringList ''skill_id'' (docField doc ''data'')) = []"
    using jsonModelToStringList_loop_bad [OF assms(3)] arr
    by (simp add: jsonModelToStringList_def)
  then have "fst (session_insert v doc) = v
             \<and> (\<exists>w. Warning w \<in> set (snd (session_insert v doc)))"
    by (auto simp add: session_insert_def Let_def split: prod.splits)
  then show ?thesis
    using dispatch_insert [OF assms(1) assms(2)] by simp
qed

theorem insert_is_all_or_nothing_witness:
  "(\<exists>e \<in> set (toArray (docField
        (JObject [(''data'', JArray [JObject [(''skill_id'', JString ''timer'')],
                                     JObject [(''name'', JString ''weather'')]]),
                  (''namespace'', JString ''mycroft.system.active_skills''),
                  (''position'', JNumber 0),
                  (''type'', JString ''mycroft.session.insert'')]) ''data'')).
        \<not> (isObject e \<and> set (keys (toMap e)) = {''skill_id''}))
   \<and> fst (onGuiSocketMessageReceived (\<lambda>url. \<lparr>errors = [], created = NullObject\<rparr>)
            \<lparr>m_skills = [''clock''], m_delegates = [], m_skillData = Map.empty\<rparr>
            (JObject [(''data'', JArray [JObject [(''skill_id'', JString ''timer'')],
                                         JObject [(''name'', JString ''weather'')]]),
                      (''namespace'', JString ''mycroft.system.active_skills''),
                      (''position'', JNumber 0),
                      (''type'', JString ''mycroft.session.insert'')]))
       = \<lparr>m_skills = [''clock''], m_delegates = [], m_skillData = Map.empty\<rparr>
   \<and> (\<exists>w. Warning w \<in> set (snd (onGuiSocketMessageReceived
            (\<lambda>url. \<lparr>errors = [], created = NullObject\<rparr>)
            \<lparr>m_skills = [''clock''], m_delegates = [], m_skillData = Map.empty\<rparr>
            (JObject [(''data'', JArray [JObject [(''skill_id'', JString ''timer'')],
                                         JObject [(''name'', JString ''weather'')]]),
                      (''namespace'', JString ''mycroft.system.active_skills''),
                      (''position'', JNumber 0),
                      (''type'', JString ''mycroft.session.insert'')]))))"
  using insert_is_all_or_nothing
    [of "JObject [(''data'', JArray [JObject [(''skill_id'', JString ''timer'')],
                                     JObject [(''name'', JString ''weather'')]]),
                  (''namespace'', JString ''mycroft.system.active_skills''),
                  (''position'', JNumber 0),
                  (''type'', JString ''mycroft.session.insert'')]"
        "\<lambda>url. \<lparr>errors = [], created = NullObject\<rparr>"
        "\<lparr>m_skills = [''clock''], m_delegates = [], m_skillData = Map.empty\<rparr>"]
  by (simp add: docField_def valueOf_def keys_def)

section \<open>Setting session data\<close>

lemma sessionDataForSkill_active:
  "skillIndexValid v sk \<Longrightarrow> fst (sessionDataForSkill v sk) = Some (storedData v sk)"
  by (auto simp add: sessionDataForSkill_def storedData_def)

lemma variantListToOrderedMap_loop_prefix:
  "\<exists>more. fst (variantListToOrderedMap_loop roleNames ordMap log xs) = ordMap @ more"
proof (induction xs arbitrary: roleNames ordMap log)
  case Nil
  then show ?case by simp
next
  case (Cons item rest)
  have step: "\<exists>more. fst (variantListToOrderedMap_loop r (ordMap @ [toMap item]) l rest)
                 = ordMap @ more" for r l
    using Cons.IH [of r "ordMap @ [toMap item]" l] by auto
  show ?case using step by simp
qed

lemma variantListToOrderedMap_Nil_iff:
  "fst (variantListToOrderedMap data) = [] \<longleftrightarrow> (data = [] \<or> \<not> isObject (hd data))"
proof (cases data)
  case Nil
  then show ?thesis by (simp add: variantListToOrderedMap_def)
next
  case (Cons item rest)
  show ?thesis
  proof (cases "isObject item")
    case True
    obtain more where
      "fst (variantListToOrderedMap_loop (keys (toMap item)) [toMap item] [] rest)
         = [toMap item] @ more"
      using variantListToOrderedMap_loop_prefix by blast
    with True Cons show ?thesis by (simp add: variantListToOrderedMap_def)
  next
    case False
    with Cons show ?thesis by (simp add: variantListToOrderedMap_def)
  qed
qed

lemma variantListToOrderedMap_loop_corrupted:
  "\<exists>e \<in> set xs. \<not> isObject e
   \<Longrightarrow> Warning ''Error: Array data structure corrupted: ''
         \<in> set (snd (variantListToOrderedMap_loop roleNames ordMap log xs))"
  by (induction xs arbitrary: roleNames ordMap log) auto

lemma setProperty_other:
  "k \<noteq> key \<Longrightarrow> fst (setProperty (m, log) (key, x)) k = m k"
  by (simp add: insertAndNotify_def split: prod.splits option.splits)

lemma setProperty_log:
  "snd (setProperty (m, log) kv) = log @ snd (setProperty (m, []) kv)"
  by (cases kv) (simp split: prod.splits option.splits)

lemma setProperty_same_key:
  "m key = m' key
   \<Longrightarrow> fst (setProperty (m, log) (key, x)) key = fst (setProperty (m', log') (key, x)) key
       \<and> snd (setProperty (m, []) (key, x)) = snd (setProperty (m', []) (key, x))"
  by (simp add: insertAndNotify_def split: prod.splits option.splits)

lemma foldl_setProperty_absent:
  "key \<notin> set (keys data) \<Longrightarrow> fst (foldl setProperty (m, log) data) key = m key"
proof (induction data arbitrary: m log)
  case Nil
  then show ?case by simp
next
  case (Cons kv rest)
  obtain k y where kv: "kv = (k, y)" by (cases kv)
  obtain m1 log1 where step: "setProperty (m, log) (k, y) = (m1, log1)"
    by (cases "setProperty (m, log) (k, y)")
  from Cons.prems kv have "k \<noteq> key" "key \<notin> set (keys rest)"
    by (auto simp add: keys_def)
  with Cons.IH [of m1 log1] setProperty_other [of key k m log y] step kv
  show ?case by simp
qed

lemma foldl_setProperty_log:
  "\<exists>more. snd (foldl setProperty (m, log) data) = log @ more"
proof (induction data arbitrary: m log)
  case Nil
  then show ?case by simp
next
  case (Cons kv rest)
  obtain m1 log1 where step: "setProperty (m, log) kv = (m1, log1)"
    by (cases "setProperty (m, log) kv")
  with setProperty_log [of m log kv] have "log1 = log @ snd (setProperty (m, []) kv)"
    by simp
  with Cons.IH [of m1 log1] step show ?case by auto
qed

lemma foldl_setProperty_key:
  "distinct (keys data) \<Longrightarrow> (key, x) \<in> set data
   \<Longrightarrow> fst (foldl setProperty (m, log) data) key = fst (setProperty (m, []) (key, x)) key
       \<and> set (snd (setProperty (m, []) (key, x))) \<subseteq> set (snd (foldl setProperty (m, log) data))"
proof (induction data arbitrary: m log)
  case Nil
  then show ?case by simp
next
  case (Cons kv rest)
  obtain k y where kv: "kv = (k, y)" by (cases kv)
  obtain m1 log1 where step: "setProperty (m, log) (k, y) = (m1, log1)"
    by (cases "setProperty (m, log) (k, y)")
  from Cons.prems(1) kv have dist: "distinct (keys rest)" and fresh: "k \<notin> set (keys rest)"
    by (simp_all add: keys_def)
  show ?case
  proof (cases "(key, x) = (k, y)")
    case True
    have log1: "log1 = log @ snd (setProperty (m, []) (k, y))"
      using setProperty_log [of m log "(k, y)"] step by simp
    obtain more where more: "snd (foldl setProperty (m1, log1) rest) = log1 @ more"
      using foldl_setProperty_log by blast
    have "fst (foldl setProperty (m1, log1) rest) k = m1 k"
      using foldl_setProperty_absent [OF fresh] .
    moreover have "m1 k = fst (setProperty (m, []) (k, y)) k"
      using setProperty_same_key [of m k m log y "[]"] step by simp
    ultimately show ?thesis
      using True kv step log1 more by auto
  next
    case False
    with Cons.prems(2) kv have mem: "(key, x) \<in> set rest" by auto
    then have "key \<in> set (keys rest)" by (force simp add: keys_def)
    with fresh have neq: "key \<noteq> k" by auto
    have same: "m1 key = m key"
      using setProperty_other [OF neq, of m log y] step by simp
    from Cons.IH [OF dist mem, of m1 log1] setProperty_same_key [of m1 key m "[]" x "[]", OF same]
    show ?thesis using kv step by simp
  qed
qed


lemma session_set_accepted:
  assumes "toString (docField doc ''namespace'') = sk" and "sk \<noteq> []"
    and "skillIndexValid v sk" and "toMap (docField doc ''data'') = data" and "data \<noteq> []"
  shows "m_skillData (fst (session_set v doc))
           = (m_skillData v)(sk \<mapsto> fst (foldl setProperty (storedData v sk, []) data))"
    and "snd (session_set v doc) = snd (foldl setProperty (storedData v sk, []) data)"
    and "m_skills (fst (session_set v doc)) = m_skills v"
    and "m_delegates (fst (session_set v doc)) = m_delegates v"
  using assms
  by (auto simp add: session_set_def sessionDataForSkill_def storedData_def
        split: prod.splits option.splits)

lemma setProperty_empty_rows:
  assumes "fst (variantListToOrderedMap (toArray x)) = []"
  shows "fst (setProperty (m, []) (key, x)) key = Some (Plain x)"
    and "m key = Some (Model rows) \<Longrightarrow> ModelDeleteLater key \<in> set (snd (setProperty (m, []) (key, x)))"
  using assms
  by (auto simp add: insertAndNotify_def split: prod.splits option.splits)

lemma setProperty_warnings:
  "set (snd (variantListToOrderedMap (toArray x))) \<subseteq> set (snd (setProperty (m, log) (key, x)))"
  by (auto split: prod.splits option.splits)

lemma session_set_empty_rows:
  assumes "toString (docField doc ''namespace'') = sk" and "sk \<noteq> []"
    and "skillIndexValid v sk"
    and "distinct (keys (toMap (docField doc ''data'')))"
    and "(key, x) \<in> set (toMap (docField doc ''data''))"
    and "fst (variantListToOrderedMap (toArray x)) = []"
  shows "\<exists>m'. m_skillData (fst (session_set v doc)) sk = Some m' \<and> m' key = Some (Plain x)"
    and "storedData v sk key = Some (Model rows)
         \<Longrightarrow> ModelDeleteLater key \<in> set (snd (session_set v doc))"
proof -
  let ?data = "toMap (docField doc ''data'')"
  let ?F = "foldl setProperty (storedData v sk, []) ?data"
  from assms(5) have ne: "?data \<noteq> []" by auto
  note acc = session_set_accepted [OF assms(1) assms(2) assms(3) refl ne]
  note key = foldl_setProperty_key [OF assms(4) assms(5), of "storedData v sk" "[]"]
  have "fst ?F key = Some (Plain x)"
    using key setProperty_empty_rows(1) [OF assms(6)] by simp
  then show "\<exists>m'. m_skillData (fst (session_set v doc)) sk = Some m' \<and> m' key = Some (Plain x)"
    using acc(1) by simp
  show "ModelDeleteLater key \<in> set (snd (session_set v doc))"
    if "storedData v sk key = Some (Model rows)"
    using setProperty_empty_rows(2) [where m = "storedData v sk" and key = key, OF assms(6) that]
      key acc(2) by auto
qed

lemma session_set_corrupted_warning:
  assumes "toString (docField doc ''namespace'') = sk" and "sk \<noteq> []"
    and "skillIndexValid v sk"
    and "distinct (keys (toMap (docField doc ''data'')))"
    and "(key, x) \<in> set (toMap (docField doc ''data''))"
    and "\<exists>e \<in> set (toArray x). \<not> isObject e"
  shows "Warning ''Error: Array data structure corrupted: '' \<in> set (snd (session_set v doc))"
proof -
  let ?data = "toMap (docField doc ''data'')"
  from assms(5) have ne: "?data \<noteq> []" by auto
  note acc = session_set_accepted [OF assms(1) assms(2) assms(3) refl ne]
  note key = foldl_setProperty_key [OF assms(4) assms(5), of "storedData v sk" "[]"]
  have "Warning ''Error: Array data structure corrupted: ''
          \<in> set (snd (variantListToOrderedMap (toArray x)))"
    using variantListToOrderedMap_loop_corrupted [OF assms(6)]
    by (simp add: variantListToOrderedMap_def)
  then have "Warning ''Error: Array data structure corrupted: ''
               \<in> set (snd (setProperty (storedData v sk, []) (key, x)))"
    using setProperty_warnings by blast
  with key acc(2) show ?thesis by auto
qed

text \<open>
  C10: in a \<open>mycroft.session.set\<close> for an active skill, a property \<open>key\<close> whose incoming
  value \<open>x\<close> converts to no rows is stored as the plain value \<open>x\<close>, never as a model; and
  when the property held a model before, that model is handed to \<open>deleteLater\<close>. The data
  map has one entry for each key, as a \<^verbatim>\<open>QVariantMap\<close> has.
\<close>

theorem set_empty_rows_stored_plain:
  assumes "toString (docField doc ''type'') = ''mycroft.session.set''"
    and "toString (docField doc ''namespace'') = sk" and "sk \<noteq> []"
    and "skillIndexValid v sk"
    and "distinct (keys (toMap (docField doc ''data'')))"
    and "(key, x) \<in> set (toMap (docField doc ''data''))"
    and "fst (variantListToOrderedMap (toArray x)) = []"
  shows "(\<exists>m'. m_skillData (fst (onGuiSocketMessageReceived engine v doc)) sk = Some m'
              \<and> m' key = Some (Plain x))
         \<and> ((\<exists>m rows. m_skillData v sk = Some m \<and> m key = Some (Model rows))
              \<longrightarrow> ModelDeleteLater key \<in> set (snd (onGuiSocketMessageReceived engine v doc)))"
proof -
  note plain = session_set_empty_rows [OF assms(2) assms(3) assms(4) assms(5) assms(6) assms(7)]
  have "ModelDeleteLater key \<in> set (snd (session_set v doc))"
    if "m_skillData v sk = Some m" "m key = Some (Model rows)" for m rows
    using plain(2) [of rows] that by (simp add: storedData_def)
  with plain(1) show ?thesis
    using dispatch_set [OF assms(1), of engine v] by auto
qed

theorem set_empty_rows_stored_plain_witness:
  "fst (variantListToOrderedMap (toArray (JArray []))) = []
   \<and> (\<exists>m'. m_skillData
              (fst (onGuiSocketMessageReceived (\<lambda>url. \<lparr>errors = [], created = NullObject\<rparr>)
                 \<lparr>m_skills = [''weather''], m_delegates = [],
                  m_skillData =
                    [''weather'' \<mapsto> [''forecast'' \<mapsto> Model [[(''day'', JString ''Mon'')]]]]\<rparr>
                 (JObject [(''data'', JObject [(''forecast'', JArray [])]),
                           (''namespace'', JString ''weather''),
                           (''type'', JString ''mycroft.session.set'')])))
              ''weather'' = Some m'
            \<and> m' ''forecast'' = Some (Plain (JArray [])))
   \<and> ModelDeleteLater ''forecast''
       \<in> set (snd (onGuiSocketMessageReceived (\<lambda>url. \<lparr>errors = [], created = NullObject\<rparr>)
                 \<lparr>m_skills = [''weather''], m_delegates = [],
                  m_skillData =
                    [''weather'' \<mapsto> [''forecast'' \<mapsto> Model [[(''day'', JString ''Mon'')]]]]\<rparr>
                 (JObject [(''data'', JObject [(''forecast'', JArray [])]),
                           (''namespace'', JString ''weather''),
                           (''type'', JString ''mycroft.session.set'')])))"
  using set_empty_rows_stored_plain
    [of "JObject [(''data'', JObject [(''forecast'', JArray [])]),
                  (''namespace'', JString ''weather''),
                  (''type'', JString ''mycroft.session.set'')]"
        "''weather''"
        "\<lparr>m_skills = [''weather''], m_delegates = [],
          m_skillData =
            [''weather'' \<mapsto> [''forecast'' \<mapsto> Model [[(''day'', JString ''Mon'')]]]]\<rparr>"
        "''forecast''" "JArray []" "\<lambda>url. \<lparr>errors = [], created = NullObject\<rparr>"]
  by (simp add: docField_def valueOf_def skillIndexValid_def keys_def
        variantListToOrderedMap_def)

text \<open>
  C2, as the code has it: in a \<open>mycroft.session.set\<close> for an active skill, when the
  property \<open>key\<close> holds a model and the incoming array \<open>x\<close> has an entry that is no object,
  the warning "Array data structure corrupted" is logged; and when the first entry of \<open>x\<close>
  is no object, the model is handed to \<open>deleteLater\<close> and the property holds the plain
  value \<open>x\<close> afterwards, not its previous rows.
\<close>

theorem set_corrupted_array_over_model:
  assumes "toString (docField doc ''type'') = ''mycroft.session.set''"
    and "toString (docField doc ''namespace'') = sk" and "sk \<noteq> []"
    and "skillIndexValid v sk"
    and "distinct (keys (toMap (docField doc ''data'')))"
    and "(key, x) \<in> set (toMap (docField doc ''data''))"
    and "m_skillData v sk = Some m" and "m key = Some (Model rows)"
    and "\<exists>e \<in> set (toArray x). \<not> isObject e"
  shows "Warning ''Error: Array data structure corrupted: ''
           \<in> set (snd (onGuiSocketMessageReceived engine v doc))
         \<and> (\<not> isObject (hd (toArray x)) \<longrightarrow>
              (\<exists>m'. m_skillData (fst (onGuiSocketMessageReceived engine v doc)) sk = Some m'
                    \<and> m' key = Some (Plain x))
              \<and> ModelDeleteLater key \<in> set (snd (onGuiSocketMessageReceived engine v doc)))"
proof -
  have stored: "storedData v sk key = Some (Model rows)"
    using assms(7) assms(8) by (simp add: storedData_def)
  have "(\<exists>m'. m_skillData (fst (session_set v doc)) sk = Some m' \<and> m' key = Some (Plain x))
        \<and> ModelDeleteLater key \<in> set (snd (session_set v doc))"
    if "\<not> isObject (hd (toArray x))"
  proof -
    from that have "fst (variantListToOrderedMap (toArray x)) = []"
      by (simp add: variantListToOrderedMap_Nil_iff)
    from session_set_empty_rows [OF assms(2) assms(3) assms(4) assms(5) assms(6) this] stored
    show ?thesis by blast
  qed
  with session_set_corrupted_warning [OF assms(2) assms(3) assms(4) assms(5) assms(6) assms(9)]
  show ?thesis
    using dispatch_set [OF assms(1), of engine v] by simp
qed

theorem set_corrupted_array_over_model_witness:
  "(\<exists>e \<in> set (toArray (JArray [JNumber 5])). \<not> isObject e)
   \<and> \<not> isObject (hd (toArray (JArray [JNumber 5])))
   \<and> Warning ''Error: Array data structure corrupted: ''
       \<in> set (snd (onGuiSocketMessageReceived (\<lambda>url. \<lparr>errors = [], created = NullObject\<rparr>)
                 \<lparr>m_skills = [''weather''], m_delegates = [],
                  m_skillData =
                    [''weather'' \<mapsto> [''forecast'' \<mapsto> Model [[(''day'', JString ''Mon'')]]]]\<rparr>
                 (JObject [(''data'', JObject [(''forecast'', JArray [JNumber 5])]),
                           (''namespace'', JString ''weather''),
                           (''type'', JString ''mycroft.session.set'')])))
   \<and> (\<exists>m'. m_skillData
              (fst (onGuiSocketMessageReceived (\<lambda>url. \<lparr>errors = [], created = NullObject\<rparr>)
                 \<lparr>m_skills = [''weather''], m_delegates = [],
                  m_skillData =
                    [''weather'' \<mapsto> [''forecast'' \<mapsto> Model [[(''day'', JString ''Mon'')]]]]\<rparr>
                 (JObject [(''data'', JObject [(''forecast'', JArray [JNumber 5])]),
                           (''namespace'', JString ''weather''),
                           (''type'', JString ''mycroft.session.set'')])))
              ''weather'' = Some m'
            \<and> m' ''forecast'' = Some (Plain (JArray [JNumber 5])))
   \<and> ModelDeleteLater ''forecast''
       \<in> set (snd (onGuiSocketMessageReceived (\<lambda>url. \<lparr>errors = [], created = NullObject\<rparr>)
                 \<lparr>m_skills = [''weather''], m_delegates = [],
                  m_skillData =
                    [''weather'' \<mapsto> [''forecast'' \<mapsto> Model [[(''day'', JString ''Mon'')]]]]\<rparr>
                 (JObject [(''data'', JObject [(''forecast'', JArray [JNumber 5])]),
                           (''namespace'', JString ''weather''),
                           (''type'', JString ''mycroft.session.set'')])))"
  using set_corrupted_array_over_model
    [of "JObject [(''data'', JObject [(''forecast'', JArray [JNumber 5])]),
                  (''namespace'', JString ''weather''),
                  (''type'', JString ''mycroft.session.set'')]"
        "''weather''"
        "\<lparr>m_skills = [''weather''], m_delegates = [],
          m_skillData =
            [''weather'' \<mapsto> [''forecast'' \<mapsto> Model [[(''day'', JString ''Mon'')]]]]\<rparr>"
        "''forecast''" "JArray [JNumber 5]"
        "[''forecast'' \<mapsto> Model [[(''day'', JString ''Mon'')]]]"
        "[[(''day'', JString ''Mon'')]]"
        "\<lambda>url. \<lparr>errors = [], created = NullObject\<rparr>"]
  by (simp add: docField_def valueOf_def skillIndexValid_def keys_def)

text \<open>
  C2 as stated fails: the skill \<open>weather\<close> holds the one-row model \<open>forecast\<close>; a set of
  \<open>forecast\<close> to the array \<open>[5]\<close>, whose entry is no object, logs the warning, hands the
  model to \<open>deleteLater\<close> and stores the array itself. The previous rows are not kept.
\<close>

theorem set_corrupted_array_counterexample:
  "(\<exists>e \<in> set (toArray (JArray [JNumber 5])). \<not> isObject e)
   \<and> onGuiSocketMessageReceived (\<lambda>url. \<lparr>errors = [], created = NullObject\<rparr>)
       \<lparr>m_skills = [''weather''], m_delegates = [],
        m_skillData =
          [''weather'' \<mapsto> [''forecast'' \<mapsto> Model [[(''day'', JString ''Mon'')]]]]\<rparr>
       (JObject [(''data'', JObject [(''forecast'', JArray [JNumber 5])]),
                 (''namespace'', JString ''weather''),
                 (''type'', JString ''mycroft.session.set'')])
     = (\<lparr>m_skills = [''weather''], m_delegates = [],
         m_skillData = [''weather'' \<mapsto> [''forecast'' \<mapsto> Plain (JArray [JNumber 5])]]\<rparr>,
        [Warning ''Error: Array data structure corrupted: '', ModelDeleteLater ''forecast''])"
  by (simp add: onGuiSocketMessageReceived_def session_set_def docField_def valueOf_def
        skillIndexValid_def sessionDataForSkill_def variantListToOrderedMap_def
        insertAndNotify_def Let_def)

text \<open>
  When an object comes before the entry that is no object, the rows collected so far
  replace the model's rows: \<open>variantListToOrderedMap\<close> returns them, where
  \<open>jsonModelToStringList\<close> clears its list.
\<close>

lemma set_corrupted_array_keeps_prefix:
  "onGuiSocketMessageReceived (\<lambda>url. \<lparr>errors = [], created = NullObject\<rparr>)
     \<lparr>m_skills = [''weather''], m_delegates = [],
      m_skillData =
        [''weather'' \<mapsto> [''forecast'' \<mapsto> Model [[(''day'', JString ''Mon'')]]]]\<rparr>
     (JObject [(''data'', JObject [(''forecast'',
                  JArray [JObject [(''day'', JString ''Tue'')], JNumber 5])]),
               (''namespace'', JString ''weather''),
               (''type'', JString ''mycroft.session.set'')])
   = (\<lparr>m_skills = [''weather''], m_delegates = [],
       m_skillData = [''weather'' \<mapsto> [''forecast'' \<mapsto> Model [[(''day'', JString ''Tue'')]]]]\<rparr>,
      [Warning ''Error: Array data structure corrupted: ''])"
  by (simp add: onGuiSocketMessageReceived_def session_set_def docField_def valueOf_def
        skillIndexValid_def sessionDataForSkill_def variantListToOrderedMap_def
        insertAndNotify_def insertData_def clear_def keys_def Let_def)

section \<open>Deleting a property\<close>

lemma session_delete_rejected:
  "toString (docField doc ''namespace'') = []
   \<or> \<not> skillIndexValid v (toString (docField doc ''namespace''))
   \<or> toString (docField doc ''property'') = []
   \<Longrightarrow> \<exists>w. session_delete v doc = (v, [Warning w])"
  by (auto simp add: session_delete_def Let_def)

lemma session_delete_accepted:
  assumes "toString (docField doc ''namespace'') = sk" and "sk \<noteq> []"
    and "skillIndexValid v sk"
    and "toString (docField doc ''property'') = p" and "p \<noteq> []"
  shows "session_delete v doc
         = (v\<lparr>m_skillData :=
                (m_skillData v)(sk \<mapsto> fst (clearAndNotify p (storedData v sk)))\<rparr>,
            snd (clearAndNotify p (storedData v sk)))"
  using assms
  by (auto simp add: session_delete_def sessionDataForSkill_def storedData_def
        split: prod.splits option.splits)

lemma clearAndNotify_unset:
  "m p = None \<Longrightarrow> clearAndNotify p m = (m, [Warning ''property not set''])"
  by (simp add: clearAndNotify_def)

lemma clearAndNotify_set:
  "m p \<noteq> None \<Longrightarrow> clearAndNotify p m = (m(p := None), [])"
  by (auto simp add: clearAndNotify_def)

text \<open>
  Whatever \<open>clearAndNotify\<close> does: after a delete that passes the checks of the handler
  the skill has session data.
\<close>

lemma session_delete_creates_data:
  assumes "toString (docField doc ''namespace'') = sk" and "sk \<noteq> []"
    and "skillIndexValid v sk"
    and "toString (docField doc ''property'') = p" and "p \<noteq> []"
  shows "m_skillData (fst (session_delete v doc)) sk \<noteq> None"
  using session_delete_accepted [OF assms] by simp

text \<open>
  C3, as the code has it: a \<open>mycroft.session.delete\<close> with an empty or inactive skill, or
  with an empty property name, leaves the state as it is and logs one warning. For an
  active skill and a property name that is not empty, the handler takes the skill's
  session data, creating the empty one when the skill has none, and clears the property
  in it: no other skill's data changes, no other property of the skill changes, the
  property is unset afterwards, and a warning is logged exactly when it was unset before.
\<close>

theorem delete_property_effect:
  assumes "toString (docField doc ''type'') = ''mycroft.session.delete''"
    and "toString (docField doc ''namespace'') = sk"
    and "toString (docField doc ''property'') = p"
  shows "(sk = [] \<or> \<not> skillIndexValid v sk \<or> p = [] \<longrightarrow>
            (\<exists>w. onGuiSocketMessageReceived engine v doc = (v, [Warning w])))
         \<and> (sk \<noteq> [] \<and> skillIndexValid v sk \<and> p \<noteq> [] \<longrightarrow>
              m_skills (fst (onGuiSocketMessageReceived engine v doc)) = m_skills v
              \<and> m_delegates (fst (onGuiSocketMessageReceived engine v doc)) = m_delegates v
              \<and> (\<forall>k. k \<noteq> sk \<longrightarrow>
                    m_skillData (fst (onGuiSocketMessageReceived engine v doc)) k
                      = m_skillData v k)
              \<and> (\<exists>m'. m_skillData (fst (onGuiSocketMessageReceived engine v doc)) sk = Some m'
                    \<and> m' p = None
                    \<and> (\<forall>q. q \<noteq> p \<longrightarrow> m' q = storedData v sk q))
              \<and> (storedData v sk p = None \<longrightarrow>
                    (\<exists>w. snd (onGuiSocketMessageReceived engine v doc) = [Warning w]))
              \<and> (storedData v sk p \<noteq> None \<longrightarrow>
                    snd (onGuiSocketMessageReceived engine v doc) = []))"
proof -
  have rejected: "\<exists>w. session_delete v doc = (v, [Warning w])"
    if "sk = [] \<or> \<not> skillIndexValid v sk \<or> p = []"
    using that session_delete_rejected [of doc v] assms(2) assms(3) by simp
  have accepted:
    "m_skills (fst (session_delete v doc)) = m_skills v
     \<and> m_delegates (fst (session_delete v doc)) = m_delegates v
     \<and> (\<forall>k. k \<noteq> sk \<longrightarrow> m_skillData (fst (session_delete v doc)) k = m_skillData v k)
     \<and> (\<exists>m'. m_skillData (fst (session_delete v doc)) sk = Some m'
           \<and> m' p = None \<and> (\<forall>q. q \<noteq> p \<longrightarrow> m' q = storedData v sk q))
     \<and> (storedData v sk p = None \<longrightarrow> (\<exists>w. snd (session_delete v doc) = [Warning w]))
     \<and> (storedData v sk p \<noteq> None \<longrightarrow> snd (session_delete v doc) = [])"
    if "sk \<noteq> []" "skillIndexValid v sk" "p \<noteq> []"
  proof (cases "storedData v sk p")
    case None
    with session_delete_accepted [OF assms(2) that(1) that(2) assms(3) that(3)]
      clearAndNotify_unset [of "storedData v sk" p]
    show ?thesis by simp
  next
    case (Some x)
    then have "storedData v sk p \<noteq> None" by simp
    with session_delete_accepted [OF assms(2) that(1) that(2) assms(3) that(3)]
      clearAndNotify_set [of "storedData v sk" p]
    show ?thesis by simp
  qed
  from rejected accepted show ?thesis
    using dispatch_delete [OF assms(1), of engine v] by simp
qed

theorem delete_property_effect_witness:
  "skillIndexValid
     \<lparr>m_skills = [''weather''], m_delegates = [],
      m_skillData = [''weather'' \<mapsto> [''temp'' \<mapsto> Plain (JNumber 21),
                                     ''unit'' \<mapsto> Plain (JString ''C'')]]\<rparr> ''weather''
   \<and> (\<exists>m'. m_skillData
              (fst (onGuiSocketMessageReceived (\<lambda>url. \<lparr>errors = [], created = NullObject\<rparr>)
                 \<lparr>m_skills = [''weather''], m_delegates = [],
                  m_skillData = [''weather'' \<mapsto> [''temp'' \<mapsto> Plain (JNumber 21),
                                                 ''unit'' \<mapsto> Plain (JString ''C'')]]\<rparr>
                 (JObject [(''namespace'', JString ''weather''),
                           (''property'', JString ''temp''),
                           (''type'', JString ''mycroft.session.delete'')])))
              ''weather'' = Some m'
            \<and> m' ''temp'' = None
            \<and> m' ''unit'' = Some (Plain (JString ''C'')))
   \<and> snd (onGuiSocketMessageReceived (\<lambda>url. \<lparr>errors = [], created = NullObject\<rparr>)
            \<lparr>m_skills = [''weather''], m_delegates = [],
             m_skillData = [''weather'' \<mapsto> [''temp'' \<mapsto> Plain (JNumber 21),
                                            ''unit'' \<mapsto> Plain (JString ''C'')]]\<rparr>
            (JObject [(''namespace'', JString ''weather''),
                      (''property'', JString ''temp''),
                      (''type'', JString ''mycroft.session.delete'')])) = []
   \<and> (\<exists>w. onGuiSocketMessageReceived (\<lambda>url. \<lparr>errors = [], created = NullObject\<rparr>)
            \<lparr>m_skills = [''weather''], m_delegates = [], m_skillData = Map.empty\<rparr>
            (JObject [(''namespace'', JString ''timer''),
                      (''property'', JString ''temp''),
                      (''type'', JString ''mycroft.session.delete'')])
          = (\<lparr>m_skills = [''weather''], m_delegates = [], m_skillData = Map.empty\<rparr>,
             [Warning w]))"
  using delete_property_effect
    [of "JObject [(''namespace'', JString ''weather''),
                  (''property'', JString ''temp''),
                  (''type'', JString ''mycroft.session.delete'')]"
        "''weather''" "''temp''"
        "\<lparr>m_skills = [''weather''], m_delegates = [],
          m_skillData = [''weather'' \<mapsto> [''temp'' \<mapsto> Plain (JNumber 21),
                                         ''unit'' \<mapsto> Plain (JString ''C'')]]\<rparr>"
        "\<lambda>url. \<lparr>errors = [], created = NullObject\<rparr>"]
    delete_property_effect
    [of "JObject [(''namespace'', JString ''timer''),
                  (''property'', JString ''temp''),
                  (''type'', JString ''mycroft.session.delete'')]"
        "''timer''" "''temp''"
        "\<lparr>m_skills = [''weather''], m_delegates = [], m_skillData = Map.empty\<rparr>"
        "\<lambda>url. \<lparr>errors = [], created = NullObject\<rparr>"]
  by (simp add: docField_def valueOf_def skillIndexValid_def storedData_def
        onGuiSocketMessageReceived_def session_delete_def sessionDataForSkill_def
        clearAndNotify_def Let_def)

text \<open>
  C3 as stated fails: the active skill \<open>timer\<close> has no session data and so no property
  \<open>alarm\<close>; the delete of \<open>alarm\<close> is not a no-op, it leaves the skill with new, empty
  session data.
\<close>

theorem delete_unset_property_counterexample:
  "m_skillData \<lparr>m_skills = [''timer''], m_delegates = [], m_skillData = Map.empty\<rparr> ''timer''
     = None
   \<and> m_skillData
       (fst (onGuiSocketMessageReceived (\<lambda>url. \<lparr>errors = [], created = NullObject\<rparr>)
          \<lparr>m_skills = [''timer''], m_delegates = [], m_skillData = Map.empty\<rparr>
          (JObject [(''namespace'', JString ''timer''),
                    (''property'', JString ''alarm''),
                    (''type'', JString ''mycroft.session.delete'')])))
       ''timer'' = Some Map.empty"
  by (simp add: onGuiSocketMessageReceived_def session_delete_def docField_def valueOf_def
        skillIndexValid_def sessionDataForSkill_def clearAndNotify_def Let_def)

section \<open>Removing active skills: the cascade\<close>

lemma eraseSkillData_fst:
  "m_skills (fst (eraseSkillData (v, log) sk)) = m_skills v
   \<and> m_delegates (fst (eraseSkillData (v, log) sk)) = m_delegates v
   \<and> m_skillData (fst (eraseSkillData (v, log) sk)) k
       = (if k = sk then None else m_skillData v k)"
  by (auto split: option.splits)

lemma foldl_eraseSkillData:
  "m_skills (fst (foldl (\<lambda>acc i. eraseSkillData acc (g i)) (v, log) is)) = m_skills v
   \<and> m_delegates (fst (foldl (\<lambda>acc i. eraseSkillData acc (g i)) (v, log) is)) = m_delegates v
   \<and> m_skillData (fst (foldl (\<lambda>acc i. eraseSkillData acc (g i)) (v, log) is)) k
       = (if k \<in> g ` set is then None else m_skillData v k)"
proof (induction "is" arbitrary: v log)
  case Nil
  then show ?case by simp
next
  case (Cons i rest)
  obtain v1 log1 where step: "eraseSkillData (v, log) (g i) = (v1, log1)"
    by (cases "eraseSkillData (v, log) (g i)")
  with eraseSkillData_fst [of v log "g i" k]
  have "m_skills v1 = m_skills v" "m_delegates v1 = m_delegates v"
    "m_skillData v1 k = (if k = g i then None else m_skillData v k)"
    by simp_all
  with Cons.IH [of v1 log1] step show ?case by auto
qed

lemma removed_rows:
  assumes "0 \<le> p" and "0 \<le> n" and "p + n \<le> rowCount v"
  shows "(\<lambda>i. skillAt v (p + int i)) ` set [0 ..< nat n] = set (removedSkills p n v)"
proof -
  have len: "nat p + nat n \<le> length (m_skills v)"
    using assms by (simp add: rowCount_def)
  have "removedSkills p n v = map (\<lambda>i. skillAt v (p + int i)) [0 ..< nat n]"
  proof (rule nth_equalityI)
    show "length (removedSkills p n v) = length (map (\<lambda>i. skillAt v (p + int i)) [0 ..< nat n])"
      using len by (simp add: removedSkills_def)
  next
    fix i assume "i < length (removedSkills p n v)"
    then have i: "i < nat n" by (simp add: removedSkills_def)
    have "p + int i < rowCount v" and "0 \<le> p + int i"
      using i assms by linarith+
    moreover have "nat (p + int i) = nat p + i"
      using assms(1) by linarith
    ultimately have "skillAt v (p + int i) = m_skills v ! (nat p + i)"
      by (simp add: skillAt_def)
    with i len show "removedSkills p n v ! i = map (\<lambda>i. skillAt v (p + int i)) [0 ..< nat n] ! i"
      by (simp add: removedSkills_def)
  qed
  then show ?thesis by simp
qed

lemma removeSkillData_fst:
  assumes "0 \<le> p" and "0 \<le> n" and "p + n \<le> rowCount v"
  shows "m_skills (fst (removeSkillData p n v)) = m_skills v"
    and "m_delegates (fst (removeSkillData p n v)) = m_delegates v"
    and "m_skillData (fst (removeSkillData p n v)) k
           = (if k \<in> set (removedSkills p n v) then None else m_skillData v k)"
  using foldl_eraseSkillData [of "\<lambda>i. skillAt v (p + int i)" v "[]" "[0 ..< nat n]" k]
    removed_rows [OF assms]
  by (simp_all add: removeSkillData_def)

lemma session_remove_accepted:
  assumes "toInt (docField doc ''position'') = p" and "toInt (docField doc ''items_number'') = n"
    and "0 \<le> p" and "p \<le> rowCount v - 1" and "0 \<le> n" and "n \<le> rowCount v - p - 1"
  shows "session_remove v doc
         = (fst (removeRows p n (fst (removeSkillData p n v))),
            snd (removeSkillData p n v) @ snd (removeRows p n (fst (removeSkillData p n v))))"
  using assms by (simp add: session_remove_def split: prod.splits)

text \<open>
  C4: when a \<open>mycroft.session.remove\<close> passes the guards of the code, every skill \<open>sk\<close> of
  the removed rows has no session data and no delegate afterwards. The session data is
  erased by the loop of the handler, on a state that still has all the rows; the
  delegates are destroyed by \<open>removeRows\<close>, which also takes the rows out.
\<close>

theorem remove_cascades:
  assumes "toString (docField doc ''type'') = ''mycroft.session.remove''"
    and "toString (docField doc ''namespace'') = ''mycroft.system.active_skills''"
    and "toInt (docField doc ''position'') = p" and "toInt (docField doc ''items_number'') = n"
    and "0 \<le> p" and "p \<le> rowCount v - 1" and "0 \<le> n" and "n \<le> rowCount v - p - 1"
    and "sk \<in> set (removedSkills p n v)"
  shows "m_skillData (fst (onGuiSocketMessageReceived engine v doc)) sk = None
         \<and> (\<forall>d \<in> set (m_delegates (fst (onGuiSocketMessageReceived engine v doc))).
               m_skillId d \<noteq> sk)
         \<and> (\<forall>d \<in> set (m_delegates v).
               m_skillId d = sk \<longrightarrow>
                 DelegateDestroyed d \<in> set (snd (onGuiSocketMessageReceived engine v doc)))
         \<and> m_skills (fst (onGuiSocketMessageReceived engine v doc))
             = take (nat p) (m_skills v) @ drop (nat p + nat n) (m_skills v)
         \<and> m_skills (fst (removeSkillData p n v)) = m_skills v
         \<and> m_skillData (fst (removeSkillData p n v)) sk = None"
proof -
  have bound: "p + n \<le> rowCount v" using assms(8) by simp
  note cleanup = removeSkillData_fst [OF assms(5) assms(7) bound]
  have same: "removedSkills p n (fst (removeSkillData p n v)) = removedSkills p n v"
    using cleanup(1) by (simp add: removedSkills_def)
  have "onGuiSocketMessageReceived engine v doc
        = (fst (removeRows p n (fst (removeSkillData p n v))),
           snd (removeSkillData p n v) @ snd (removeRows p n (fst (removeSkillData p n v))))"
    using dispatch_remove [OF assms(1) assms(2), of engine v]
      session_remove_accepted [OF assms(3) assms(4) assms(5) assms(6) assms(7) assms(8)]
    by simp
  then show ?thesis
    using cleanup(1) cleanup(2) cleanup(3) [of sk] same assms(9)
    by (auto simp add: removeRows_def)
qed

theorem remove_cascades_witness:
  "''b'' \<in> set (removedSkills 1 1
       \<lparr>m_skills = [''a'', ''b'', ''c''],
        m_delegates = [\<lparr>m_skillId = ''b'', m_qmlUrl = ''b.qml'', m_sessionData = True\<rparr>,
                       \<lparr>m_skillId = ''c'', m_qmlUrl = ''c.qml'', m_sessionData = False\<rparr>],
        m_skillData = [''b'' \<mapsto> [''x'' \<mapsto> Plain (JNumber 1)]]\<rparr>)
   \<and> m_skillData
       (fst (onGuiSocketMessageReceived (\<lambda>url. \<lparr>errors = [], created = NullObject\<rparr>)
          \<lparr>m_skills = [''a'', ''b'', ''c''],
           m_delegates = [\<lparr>m_skillId = ''b'', m_qmlUrl = ''b.qml'', m_sessionData = True\<rparr>,
                          \<lparr>m_skillId = ''c'', m_qmlUrl = ''c.qml'', m_sessionData = False\<rparr>],
           m_skillData = [''b'' \<mapsto> [''x'' \<mapsto> Plain (JNumber 1)]]\<rparr>
          (JObject [(''items_number'', JNumber 1),
                    (''namespace'', JString ''mycroft.system.active_skills''),
                    (''position'', JNumber 1),
                    (''type'', JString ''mycroft.session.remove'')])))
       ''b'' = None
   \<and> m_delegates
       (fst (onGuiSocketMessageReceived (\<lambda>url. \<lparr>errors = [], created = NullObject\<rparr>)
          \<lparr>m_skills = [''a'', ''b'', ''c''],
           m_delegates = [\<lparr>m_skillId = ''b'', m_qmlUrl = ''b.qml'', m_sessionData = True\<rparr>,
                          \<lparr>m_skillId = ''c'', m_qmlUrl = ''c.qml'', m_sessionData = False\<rparr>],
           m_skillData = [''b'' \<mapsto> [''x'' \<mapsto> Plain (JNumber 1)]]\<rparr>
          (JObject [(''items_number'', JNumber 1),
                    (''namespace'', JString ''mycroft.system.active_skills''),
                    (''position'', JNumber 1),
                    (''type'', JString ''mycroft.session.remove'')])))
       = [\<lparr>m_skillId = ''c'', m_qmlUrl = ''c.qml'', m_sessionData = False\<rparr>]
   \<and> m_skills
       (fst (onGuiSocketMessageReceived (\<lambda>url. \<lparr>errors = [], created = NullObject\<rparr>)
          \<lparr>m_skills = [''a'', ''b'', ''c''],
           m_delegates = [\<lparr>m_skillId = ''b'', m_qmlUrl = ''b.qml'', m_sessionData = True\<rparr>,
                          \<lparr>m_skillId = ''c'', m_qmlUrl = ''c.qml'', m_sessionData = False\<rparr>],
           m_skillData = [''b'' \<mapsto> [''x'' \<mapsto> Plain (JNumber 1)]]\<rparr>
          (JObject [(''items_number'', JNumber 1),
                    (''namespace'', JString ''mycroft.system.active_skills''),
                    (''position'', JNumber 1),
                    (''type'', JString ''mycroft.session.remove'')])))
       = [''a'', ''c'']"
  using remove_cascades
    [of "JObject [(''items_number'', JNumber 1),
                  (''namespace'', JString ''mycroft.system.active_skills''),
                  (''position'', JNumber 1),
                  (''type'', JString ''mycroft.session.remove'')]"
        1 1
        "\<lparr>m_skills = [''a'', ''b'', ''c''],
          m_delegates = [\<lparr>m_skillId = ''b'', m_qmlUrl = ''b.qml'', m_sessionData = True\<rparr>,
                         \<lparr>m_skillId = ''c'', m_qmlUrl = ''c.qml'', m_sessionData = False\<rparr>],
          m_skillData = [''b'' \<mapsto> [''x'' \<mapsto> Plain (JNumber 1)]]\<rparr>"
        "''b''" "\<lambda>url. \<lparr>errors = [], created = NullObject\<rparr>"]
  by (simp add: docField_def valueOf_def rowCount_def removedSkills_def
        onGuiSocketMessageReceived_def session_remove_def removeSkillData_def removeRows_def
        skillAt_def)

section \<open>Showing a delegate\<close>

lemma find_None_filter: "find P xs = None \<Longrightarrow> filter P xs = []"
  by (induction xs) (auto split: if_splits)

lemma find_append_last: "find P xs = None \<Longrightarrow> P d \<Longrightarrow> find P (xs @ [d]) = Some d"
  by (induction xs) (auto split: if_splits)

lemma find_Some_holds: "find P xs = Some d \<Longrightarrow> P d"
  by (induction xs) (auto split: if_splits)

lemma gui_show_registered:
  assumes "toString (docField doc ''namespace'') = sk" and "sk \<noteq> []"
    and "toString (docField doc ''gui_url'') = url" and "url \<noteq> []"
    and "delegateForSkill v sk url = Some d"
  shows "gui_show engine v doc = (v, [CurrentRequested d])"
  using assms by (simp add: gui_show_def)

lemma gui_show_load_error:
  assumes "toString (docField doc ''namespace'') = sk" and "sk \<noteq> []"
    and "toString (docField doc ''gui_url'') = url" and "url \<noteq> []"
    and "delegateForSkill v sk url = None" and "isError (engine url)"
  shows "gui_show engine v doc = (v, BeginCreate url # map Warning (errors (engine url)))"
  using assms by (simp add: gui_show_def)

lemma gui_show_created:
  assumes "toString (docField doc ''namespace'') = sk" and "sk \<noteq> []"
    and "toString (docField doc ''gui_url'') = url" and "url \<noteq> []"
    and "delegateForSkill v sk url = None" and "\<not> isError (engine url)"
    and "created (engine url) = AbstractDelegateObject"
  shows "\<exists>d. m_skillId d = sk \<and> m_qmlUrl d = url
             \<and> m_delegates (fst (gui_show engine v doc)) = m_delegates v @ [d]
             \<and> m_skills (fst (gui_show engine v doc)) = m_skills v
             \<and> snd (gui_show engine v doc)
                 = [BeginCreate url, CompleteCreate url, CurrentRequested d]"
  using assms
  by (simp add: gui_show_def insertDelegate_def sessionDataForSkill_def split: prod.splits)

text \<open>
  C6: for a \<open>mycroft.gui.show\<close> with a skill and a url that are not empty. When no
  delegate is registered for the pair and the component loads as an \<open>AbstractDelegate\<close>,
  the first message instantiates one delegate, registers it and requests it as current;
  the same message again changes nothing and only requests that delegate as current, and
  the registry holds exactly that one delegate for the pair. When the component has
  errors, each error is logged, there is at least one, and the state is unchanged: nothing
  is registered. When a delegate is registered for the pair already, both messages only
  request it as current.
\<close>

theorem show_twice_registers_once:
  assumes "toString (docField doc ''type'') = ''mycroft.gui.show''"
    and "toString (docField doc ''namespace'') = sk" and "sk \<noteq> []"
    and "toString (docField doc ''gui_url'') = url" and "url \<noteq> []"
  shows "(delegateForSkill v sk url = None \<and> \<not> isError (engine url)
            \<and> created (engine url) = AbstractDelegateObject \<longrightarrow>
            (\<exists>d. m_skillId d = sk \<and> m_qmlUrl d = url
                \<and> snd (onGuiSocketMessageReceived engine v doc)
                    = [BeginCreate url, CompleteCreate url, CurrentRequested d]
                \<and> onGuiSocketMessageReceived engine
                      (fst (onGuiSocketMessageReceived engine v doc)) doc
                    = (fst (onGuiSocketMessageReceived engine v doc), [CurrentRequested d])
                \<and> filter (\<lambda>d. m_skillId d = sk \<and> m_qmlUrl d = url)
                      (m_delegates (fst (onGuiSocketMessageReceived engine v doc)))
                    = [d]))
         \<and> (delegateForSkill v sk url = None \<and> isError (engine url) \<longrightarrow>
              onGuiSocketMessageReceived engine v doc
                = (v, BeginCreate url # map Warning (errors (engine url)))
              \<and> errors (engine url) \<noteq> [])
         \<and> (\<forall>d. delegateForSkill v sk url = Some d \<longrightarrow>
              onGuiSocketMessageReceived engine v doc = (v, [CurrentRequested d])
              \<and> onGuiSocketMessageReceived engine
                    (fst (onGuiSocketMessageReceived engine v doc)) doc
                  = (v, [CurrentRequested d]))"
proof -
  let ?P = "\<lambda>d. m_skillId d = sk \<and> m_qmlUrl d = url"
  note same = dispatch_show [OF assms(1)]
  have first:
    "\<exists>d. m_skillId d = sk \<and> m_qmlUrl d = url
         \<and> snd (gui_show engine v doc) = [BeginCreate url, CompleteCreate url, CurrentRequested d]
         \<and> gui_show engine (fst (gui_show engine v doc)) doc
             = (fst (gui_show engine v doc), [CurrentRequested d])
         \<and> filter ?P (m_delegates (fst (gui_show engine v doc))) = [d]"
    if none: "delegateForSkill v sk url = None" and ok: "\<not> isError (engine url)"
      and obj: "created (engine url) = AbstractDelegateObject"
  proof -
    from gui_show_created [where engine = engine, OF assms(2) assms(3) assms(4) assms(5) none ok obj]
    obtain d where d: "m_skillId d = sk" "m_qmlUrl d = url"
      "m_delegates (fst (gui_show engine v doc)) = m_delegates v @ [d]"
      "snd (gui_show engine v doc) = [BeginCreate url, CompleteCreate url, CurrentRequested d]"
      by blast
    from none have no: "find ?P (m_delegates v) = None"
      by (simp add: delegateForSkill_def)
    have "delegateForSkill (fst (gui_show engine v doc)) sk url = Some d"
      using find_append_last [of ?P "m_delegates v" d] no d(1) d(2) d(3)
      by (simp add: delegateForSkill_def)
    from gui_show_registered [OF assms(2) assms(3) assms(4) assms(5) this]
    have "gui_show engine (fst (gui_show engine v doc)) doc
            = (fst (gui_show engine v doc), [CurrentRequested d])" .
    moreover have "filter ?P (m_delegates (fst (gui_show engine v doc))) = [d]"
      using find_None_filter [OF no] d(1) d(2) d(3) by simp
    ultimately show ?thesis using d(1) d(2) d(4) by blast
  qed
  have failed:
    "gui_show engine v doc = (v, BeginCreate url # map Warning (errors (engine url)))
     \<and> errors (engine url) \<noteq> []"
    if "delegateForSkill v sk url = None" and "isError (engine url)"
    using gui_show_load_error [where engine = engine, OF assms(2) assms(3) assms(4) assms(5) that] that(2)
    by (simp add: isError_def)
  have again:
    "gui_show engine v doc = (v, [CurrentRequested d])
     \<and> gui_show engine (fst (gui_show engine v doc)) doc = (v, [CurrentRequested d])"
    if "delegateForSkill v sk url = Some d" for d
    using gui_show_registered [OF assms(2) assms(3) assms(4) assms(5) that] by simp
  from first failed again show ?thesis
    by (simp only: same) blast
qed

theorem show_twice_registers_once_witness:
  "delegateForSkill \<lparr>m_skills = [''clock''], m_delegates = [], m_skillData = Map.empty\<rparr> ''clock'' ''clock.qml'' = None
   \<and> onGuiSocketMessageReceived (\<lambda>url. if url = ''clock.qml'' then \<lparr>errors = [], created = AbstractDelegateObject\<rparr>
           else \<lparr>errors = [''no such file''], created = NullObject\<rparr>)
       \<lparr>m_skills = [''clock''], m_delegates = [], m_skillData = Map.empty\<rparr>
       (JObject [(''gui_url'', JString ''clock.qml''), (''namespace'', JString ''clock''),
               (''type'', JString ''mycroft.gui.show'')])
     = (\<lparr>m_skills = [''clock''], m_delegates =
            [\<lparr>m_skillId = ''clock'', m_qmlUrl = ''clock.qml'', m_sessionData = True\<rparr>],
          m_skillData = [''clock'' \<mapsto> Map.empty]\<rparr>,
        [BeginCreate ''clock.qml'', CompleteCreate ''clock.qml'', CurrentRequested
           \<lparr>m_skillId = ''clock'', m_qmlUrl = ''clock.qml'', m_sessionData = True\<rparr>])
   \<and> onGuiSocketMessageReceived (\<lambda>url. if url = ''clock.qml'' then \<lparr>errors = [], created = AbstractDelegateObject\<rparr>
           else \<lparr>errors = [''no such file''], created = NullObject\<rparr>)
       (fst (onGuiSocketMessageReceived (\<lambda>url. if url = ''clock.qml'' then \<lparr>errors = [], created = AbstractDelegateObject\<rparr>
           else \<lparr>errors = [''no such file''], created = NullObject\<rparr>)
          \<lparr>m_skills = [''clock''], m_delegates = [], m_skillData = Map.empty\<rparr>
          (JObject [(''gui_url'', JString ''clock.qml''), (''namespace'', JString ''clock''),
               (''type'', JString ''mycroft.gui.show'')])))
       (JObject [(''gui_url'', JString ''clock.qml''), (''namespace'', JString ''clock''),
               (''type'', JString ''mycroft.gui.show'')])
     = (\<lparr>m_skills = [''clock''], m_delegates =
            [\<lparr>m_skillId = ''clock'', m_qmlUrl = ''clock.qml'', m_sessionData = True\<rparr>],
          m_skillData = [''clock'' \<mapsto> Map.empty]\<rparr>,
        [CurrentRequested
           \<lparr>m_skillId = ''clock'', m_qmlUrl = ''clock.qml'', m_sessionData = True\<rparr>])
   \<and> onGuiSocketMessageReceived (\<lambda>url. if url = ''clock.qml'' then \<lparr>errors = [], created = AbstractDelegateObject\<rparr>
           else \<lparr>errors = [''no such file''], created = NullObject\<rparr>)
       \<lparr>m_skills = [''clock''], m_delegates = [], m_skillData = Map.empty\<rparr>
       (JObject [(''gui_url'', JString ''bad.qml''), (''namespace'', JString ''clock''),
               (''type'', JString ''mycroft.gui.show'')])
     = (\<lparr>m_skills = [''clock''], m_delegates = [], m_skillData = Map.empty\<rparr>,
        [BeginCreate ''bad.qml'', Warning ''no such file''])"
proof -
  let ?V = "\<lparr>m_skills = [''clock''], m_delegates = [], m_skillData = Map.empty\<rparr>"
  let ?V1 = "\<lparr>m_skills = [''clock''], m_delegates =
            [\<lparr>m_skillId = ''clock'', m_qmlUrl = ''clock.qml'', m_sessionData = True\<rparr>],
          m_skillData = [''clock'' \<mapsto> Map.empty]\<rparr>"
  let ?E = "(\<lambda>url. if url = ''clock.qml'' then \<lparr>errors = [], created = AbstractDelegateObject\<rparr>
           else \<lparr>errors = [''no such file''], created = NullObject\<rparr>)"
  let ?D = "(JObject [(''gui_url'', JString ''clock.qml''), (''namespace'', JString ''clock''),
               (''type'', JString ''mycroft.gui.show'')])"
  let ?B = "(JObject [(''gui_url'', JString ''bad.qml''), (''namespace'', JString ''clock''),
               (''type'', JString ''mycroft.gui.show'')])"
  let ?d = "\<lparr>m_skillId = ''clock'', m_qmlUrl = ''clock.qml'', m_sessionData = True\<rparr>"
  have none: "delegateForSkill ?V ''clock'' ''clock.qml'' = None"
    by (simp add: delegateForSkill_def)
  have first: "onGuiSocketMessageReceived ?E ?V ?D
               = (?V1, [BeginCreate ''clock.qml'', CompleteCreate ''clock.qml'',
                        CurrentRequested ?d])"
    by (simp add: docField_def valueOf_def delegateForSkill_def isError_def
          onGuiSocketMessageReceived_def gui_show_def sessionDataForSkill_def
          skillIndexValid_def insertDelegate_def Let_def)
  have loads: "\<not> isError (?E ''clock.qml'') \<and> created (?E ''clock.qml'') = AbstractDelegateObject"
    by (simp add: isError_def)
  have "toString (docField ?D ''type'') = ''mycroft.gui.show''"
    and "toString (docField ?D ''namespace'') = ''clock''"
    and "toString (docField ?D ''gui_url'') = ''clock.qml''"
    by (simp_all add: docField_def valueOf_def)
  from show_twice_registers_once [where engine = ?E and v = ?V, OF this(1) this(2) _ this(3)]
    none loads
  obtain d where d:
    "snd (onGuiSocketMessageReceived ?E ?V ?D)
       = [BeginCreate ''clock.qml'', CompleteCreate ''clock.qml'', CurrentRequested d]"
    "onGuiSocketMessageReceived ?E (fst (onGuiSocketMessageReceived ?E ?V ?D)) ?D
       = (fst (onGuiSocketMessageReceived ?E ?V ?D), [CurrentRequested d])"
    by auto
  from d(1) first have "d = ?d" by simp
  with d(2) first
  have second: "onGuiSocketMessageReceived ?E (fst (onGuiSocketMessageReceived ?E ?V ?D)) ?D
                = (?V1, [CurrentRequested ?d])"
    by simp
  have fails: "isError (?E ''bad.qml'')"
    by (simp add: isError_def)
  have none': "delegateForSkill ?V ''clock'' ''bad.qml'' = None"
    by (simp add: delegateForSkill_def)
  have "toString (docField ?B ''type'') = ''mycroft.gui.show''"
    and "toString (docField ?B ''namespace'') = ''clock''"
    and "toString (docField ?B ''gui_url'') = ''bad.qml''"
    by (simp_all add: docField_def valueOf_def)
  from show_twice_registers_once [where engine = ?E and v = ?V, OF this(1) this(2) _ this(3)]
    none' fails
  have "onGuiSocketMessageReceived ?E ?V ?B
        = (?V, BeginCreate ''bad.qml'' # map Warning (errors (?E ''bad.qml'')))"
    by auto
  then have bad: "onGuiSocketMessageReceived ?E ?V ?B
                  = (?V, [BeginCreate ''bad.qml'', Warning ''no such file''])"
    by simp
  from none first second bad show ?thesis by (simp only: simp_thms)
qed

section \<open>Dispatching an event\<close>

lemma events_triggered_system:
  assumes "toString (docField doc ''namespace'') = ''system''"
    and "toString (docField doc ''event_name'') = ev" and "ev \<noteq> []"
  shows "events_triggered v doc
         = (v, map (\<lambda>d. DelegateEvent d ev (toMap (docField doc ''data''))) (m_delegates v))"
  using assms by (simp add: events_triggered_def delegatesForSkill_def)

lemma events_triggered_skill:
  assumes "toString (docField doc ''namespace'') = sk" and "sk \<noteq> ''system''" and "sk \<noteq> []"
    and "skillIndexValid v sk"
    and "toString (docField doc ''event_name'') = ev" and "ev \<noteq> []"
  shows "events_triggered v doc
         = (v, map (\<lambda>d. DelegateEvent d ev (toMap (docField doc ''data'')))
                 (filter (\<lambda>d. m_skillId d = sk) (m_delegates v)))"
  using assms by (simp add: events_triggered_def delegatesForSkill_def)

lemma events_triggered_rejected:
  assumes "toString (docField doc ''namespace'') = sk"
    and "toString (docField doc ''event_name'') = ev"
    and "sk = [] \<or> (sk \<noteq> ''system'' \<and> \<not> skillIndexValid v sk) \<or> ev = []"
  shows "\<exists>w. events_triggered v doc = (v, [Warning w])"
  using assms by (auto simp add: events_triggered_def)

lemma events_triggered_only:
  assumes "toString (docField doc ''namespace'') = sk" and "sk \<noteq> ''system''"
    and "DelegateEvent d ev x \<in> set (snd (events_triggered v doc))"
  shows "m_skillId d = sk"
  using assms by (auto simp add: events_triggered_def delegatesForSkill_def Let_def split: if_splits)

text \<open>
  C7: for a \<open>mycroft.events.triggered\<close> with namespace \<open>sk\<close> and event name \<open>ev\<close>. With the
  namespace \<open>system\<close> and a name that is not empty the event goes to every registered
  delegate; with the namespace of an active skill, to the delegates of that skill and to
  no other; with any namespace but \<open>system\<close> no delegate of another skill receives it;
  a namespace that is neither \<open>system\<close> nor an active skill, and an empty event name, log
  one warning and dispatch nothing. The state is never changed.
\<close>

theorem events_dispatch:
  assumes "toString (docField doc ''type'') = ''mycroft.events.triggered''"
    and "toString (docField doc ''namespace'') = sk"
    and "toString (docField doc ''event_name'') = ev"
  shows "(sk = ''system'' \<and> ev \<noteq> [] \<longrightarrow>
            onGuiSocketMessageReceived engine v doc
              = (v, map (\<lambda>d. DelegateEvent d ev (toMap (docField doc ''data'')))
                      (m_delegates v)))
         \<and> (sk \<noteq> ''system'' \<and> sk \<noteq> [] \<and> skillIndexValid v sk \<and> ev \<noteq> [] \<longrightarrow>
              onGuiSocketMessageReceived engine v doc
                = (v, map (\<lambda>d. DelegateEvent d ev (toMap (docField doc ''data'')))
                        (filter (\<lambda>d. m_skillId d = sk) (m_delegates v))))
         \<and> (sk \<noteq> ''system'' \<longrightarrow>
              (\<forall>d e x. DelegateEvent d e x \<in> set (snd (onGuiSocketMessageReceived engine v doc))
                 \<longrightarrow> m_skillId d = sk))
         \<and> (sk \<noteq> ''system'' \<and> \<not> skillIndexValid v sk \<longrightarrow>
              (\<exists>w. onGuiSocketMessageReceived engine v doc = (v, [Warning w])))
         \<and> (ev = [] \<longrightarrow>
              (\<exists>w. onGuiSocketMessageReceived engine v doc = (v, [Warning w])))"
proof -
  note same = dispatch_events [OF assms(1)]
  have "sk = ''system'' \<and> ev \<noteq> [] \<longrightarrow>
          events_triggered v doc
            = (v, map (\<lambda>d. DelegateEvent d ev (toMap (docField doc ''data''))) (m_delegates v))"
    using events_triggered_system [of doc ev v] assms(2) assms(3) by simp
  moreover have "sk \<noteq> ''system'' \<and> sk \<noteq> [] \<and> skillIndexValid v sk \<and> ev \<noteq> [] \<longrightarrow>
          events_triggered v doc
            = (v, map (\<lambda>d. DelegateEvent d ev (toMap (docField doc ''data'')))
                    (filter (\<lambda>d. m_skillId d = sk) (m_delegates v)))"
    using events_triggered_skill [OF assms(2) _ _ _ assms(3)] by simp
  moreover have "sk \<noteq> ''system'' \<longrightarrow>
          (\<forall>d e x. DelegateEvent d e x \<in> set (snd (events_triggered v doc)) \<longrightarrow> m_skillId d = sk)"
    using events_triggered_only [OF assms(2)] by blast
  moreover have "sk \<noteq> ''system'' \<and> \<not> skillIndexValid v sk \<longrightarrow>
          (\<exists>w. events_triggered v doc = (v, [Warning w]))"
    using events_triggered_rejected [OF assms(2) assms(3)] by simp
  moreover have "ev = [] \<longrightarrow> (\<exists>w. events_triggered v doc = (v, [Warning w]))"
    using events_triggered_rejected [OF assms(2) assms(3)] by simp
  ultimately show ?thesis
    by (simp only: same)
qed

theorem events_dispatch_witness:
  "onGuiSocketMessageReceived (\<lambda>url. \<lparr>errors = [], created = NullObject\<rparr>)
     \<lparr>m_skills = [''a'', ''b''],
         m_delegates = [\<lparr>m_skillId = ''a'', m_qmlUrl = ''a.qml'', m_sessionData = True\<rparr>,
                        \<lparr>m_skillId = ''b'', m_qmlUrl = ''b.qml'', m_sessionData = True\<rparr>],
         m_skillData = Map.empty\<rparr>
     (JObject [(''data'', JObject []), (''event_name'', JString ''x''),
               (''namespace'', JString ''system''), (''type'', JString ''mycroft.events.triggered'')])
   = (\<lparr>m_skills = [''a'', ''b''],
         m_delegates = [\<lparr>m_skillId = ''a'', m_qmlUrl = ''a.qml'', m_sessionData = True\<rparr>,
                        \<lparr>m_skillId = ''b'', m_qmlUrl = ''b.qml'', m_sessionData = True\<rparr>],
         m_skillData = Map.empty\<rparr>,
      [DelegateEvent \<lparr>m_skillId = ''a'', m_qmlUrl = ''a.qml'', m_sessionData = True\<rparr> ''x'' [], DelegateEvent \<lparr>m_skillId = ''b'', m_qmlUrl = ''b.qml'', m_sessionData = True\<rparr> ''x'' []])
   \<and> onGuiSocketMessageReceived (\<lambda>url. \<lparr>errors = [], created = NullObject\<rparr>)
       \<lparr>m_skills = [''a'', ''b''],
         m_delegates = [\<lparr>m_skillId = ''a'', m_qmlUrl = ''a.qml'', m_sessionData = True\<rparr>,
                        \<lparr>m_skillId = ''b'', m_qmlUrl = ''b.qml'', m_sessionData = True\<rparr>],
         m_skillData = Map.empty\<rparr>
       (JObject [(''data'', JObject []), (''event_name'', JString ''x''),
               (''namespace'', JString ''a''), (''type'', JString ''mycroft.events.triggered'')])
     = (\<lparr>m_skills = [''a'', ''b''],
         m_delegates = [\<lparr>m_skillId = ''a'', m_qmlUrl = ''a.qml'', m_sessionData = True\<rparr>,
                        \<lparr>m_skillId = ''b'', m_qmlUrl = ''b.qml'', m_sessionData = True\<rparr>],
         m_skillData = Map.empty\<rparr>,
        [DelegateEvent \<lparr>m_skillId = ''a'', m_qmlUrl = ''a.qml'', m_sessionData = True\<rparr> ''x'' []])
   \<and> \<not> skillIndexValid \<lparr>m_skills = [''a'', ''b''],
         m_delegates = [\<lparr>m_skillId = ''a'', m_qmlUrl = ''a.qml'', m_sessionData = True\<rparr>,
                        \<lparr>m_skillId = ''b'', m_qmlUrl = ''b.qml'', m_sessionData = True\<rparr>],
         m_skillData = Map.empty\<rparr> ''c''
   \<and> (\<exists>w. onGuiSocketMessageReceived (\<lambda>url. \<lparr>errors = [], created = NullObject\<rparr>)
            \<lparr>m_skills = [''a'', ''b''],
         m_delegates = [\<lparr>m_skillId = ''a'', m_qmlUrl = ''a.qml'', m_sessionData = True\<rparr>,
                        \<lparr>m_skillId = ''b'', m_qmlUrl = ''b.qml'', m_sessionData = True\<rparr>],
         m_skillData = Map.empty\<rparr>
            (JObject [(''data'', JObject []), (''event_name'', JString ''x''),
               (''namespace'', JString ''c''), (''type'', JString ''mycroft.events.triggered'')])
          = (\<lparr>m_skills = [''a'', ''b''],
         m_delegates = [\<lparr>m_skillId = ''a'', m_qmlUrl = ''a.qml'', m_sessionData = True\<rparr>,
                        \<lparr>m_skillId = ''b'', m_qmlUrl = ''b.qml'', m_sessionData = True\<rparr>],
         m_skillData = Map.empty\<rparr>, [Warning w]))"
proof -
  let ?V = "\<lparr>m_skills = [''a'', ''b''],
         m_delegates = [\<lparr>m_skillId = ''a'', m_qmlUrl = ''a.qml'', m_sessionData = True\<rparr>,
                        \<lparr>m_skillId = ''b'', m_qmlUrl = ''b.qml'', m_sessionData = True\<rparr>],
         m_skillData = Map.empty\<rparr>"
  let ?E = "(\<lambda>url. \<lparr>errors = [], created = NullObject\<rparr>)"
  let ?S = "(JObject [(''data'', JObject []), (''event_name'', JString ''x''),
               (''namespace'', JString ''system''), (''type'', JString ''mycroft.events.triggered'')])"
  let ?A = "(JObject [(''data'', JObject []), (''event_name'', JString ''x''),
               (''namespace'', JString ''a''), (''type'', JString ''mycroft.events.triggered'')])"
  let ?C = "(JObject [(''data'', JObject []), (''event_name'', JString ''x''),
               (''namespace'', JString ''c''), (''type'', JString ''mycroft.events.triggered'')])"
  have sys: "toString (docField ?S ''type'') = ''mycroft.events.triggered''"
    "toString (docField ?S ''namespace'') = ''system''"
    "toString (docField ?S ''event_name'') = ''x''"
    by (simp_all add: docField_def valueOf_def)
  have "onGuiSocketMessageReceived ?E ?V ?S
        = (?V, map (\<lambda>d. DelegateEvent d ''x'' (toMap (docField ?S ''data''))) (m_delegates ?V))"
    using events_dispatch [where engine = ?E and v = ?V, OF sys] by simp
  then have all: "onGuiSocketMessageReceived ?E ?V ?S
                  = (?V, [DelegateEvent \<lparr>m_skillId = ''a'', m_qmlUrl = ''a.qml'', m_sessionData = True\<rparr> ''x'' [],
                          DelegateEvent \<lparr>m_skillId = ''b'', m_qmlUrl = ''b.qml'', m_sessionData = True\<rparr> ''x'' []])"
    by (simp add: docField_def valueOf_def)
  have a: "toString (docField ?A ''type'') = ''mycroft.events.triggered''"
    "toString (docField ?A ''namespace'') = ''a''"
    "toString (docField ?A ''event_name'') = ''x''"
    by (simp_all add: docField_def valueOf_def)
  have active: "skillIndexValid ?V ''a''"
    by (simp add: skillIndexValid_def)
  have "onGuiSocketMessageReceived ?E ?V ?A
        = (?V, map (\<lambda>d. DelegateEvent d ''x'' (toMap (docField ?A ''data'')))
                 (filter (\<lambda>d. m_skillId d = ''a'') (m_delegates ?V)))"
    using events_dispatch [where engine = ?E and v = ?V, OF a] active by simp
  then have own: "onGuiSocketMessageReceived ?E ?V ?A
                  = (?V, [DelegateEvent \<lparr>m_skillId = ''a'', m_qmlUrl = ''a.qml'', m_sessionData = True\<rparr> ''x'' []])"
    by (simp add: docField_def valueOf_def)
  have c: "toString (docField ?C ''type'') = ''mycroft.events.triggered''"
    "toString (docField ?C ''namespace'') = ''c''"
    "toString (docField ?C ''event_name'') = ''x''"
    by (simp_all add: docField_def valueOf_def)
  have inactive: "\<not> skillIndexValid ?V ''c''"
    by (simp add: skillIndexValid_def)
  have none: "\<exists>w. onGuiSocketMessageReceived ?E ?V ?C = (?V, [Warning w])"
    using events_dispatch [where engine = ?E and v = ?V, OF c] inactive by simp
  from all own inactive none show ?thesis by (simp only: simp_thms)
qed

section \<open>Sending an utterance\<close>

lemma status_Open_iff:
  "status c = Open \<longleftrightarrow> (\<not> m_reconnectTimer c \<and> m_webSocket c = ConnectedState)"
  by (cases "m_webSocket c") (simp_all add: status_def)

text \<open>
  C8, as the code has it: \<open>sendText\<close> transmits nothing and logs one warning whenever the
  socket's own state is not \<open>ConnectedState\<close>, and otherwise transmits exactly the message
  \<open>{type: "recognizer_loop:utterance", data: {utterances: [text]}}\<close>. A derived
  status \<open>Open\<close> always transmits; a derived status other than \<open>Open\<close> transmits nothing
  when the reconnect timer is not armed.
\<close>

theorem sendText_socket_gate:
  "(m_webSocket c \<noteq> ConnectedState \<longrightarrow>
      sendText c text = [Warning ''mycroft connection not open!''])
   \<and> (m_webSocket c = ConnectedState \<longrightarrow>
      sendText c text =
        [SendTextMessage
          (JObject [(''data'', JObject [(''utterances'', JArray [JString text])]),
                    (''type'', JString ''recognizer_loop:utterance'')])])
   \<and> (status c = Open \<longrightarrow> m_webSocket c = ConnectedState)
   \<and> (status c \<noteq> Open \<and> \<not> m_reconnectTimer c \<longrightarrow> m_webSocket c \<noteq> ConnectedState)"
  by (auto simp add: sendText_def sendRequest_def status_Open_iff)

theorem sendText_socket_gate_witness:
  "m_webSocket \<lparr>m_webSocket = UnconnectedState, m_reconnectTimer = False\<rparr> \<noteq> ConnectedState
   \<and> status \<lparr>m_webSocket = UnconnectedState, m_reconnectTimer = False\<rparr> \<noteq> Open
   \<and> sendText \<lparr>m_webSocket = UnconnectedState, m_reconnectTimer = False\<rparr> ''hello''
       = [Warning ''mycroft connection not open!'']
   \<and> m_webSocket \<lparr>m_webSocket = ConnectedState, m_reconnectTimer = False\<rparr> = ConnectedState
   \<and> status \<lparr>m_webSocket = ConnectedState, m_reconnectTimer = False\<rparr> = Open
   \<and> sendText \<lparr>m_webSocket = ConnectedState, m_reconnectTimer = False\<rparr> ''hello''
       = [SendTextMessage
           (JObject [(''data'', JObject [(''utterances'', JArray [JString ''hello''])]),
                     (''type'', JString ''recognizer_loop:utterance'')])]"
  using sendText_socket_gate
          [of "\<lparr>m_webSocket = UnconnectedState, m_reconnectTimer = False\<rparr>" "''hello''"]
        sendText_socket_gate
          [of "\<lparr>m_webSocket = ConnectedState, m_reconnectTimer = False\<rparr>" "''hello''"]
  by (simp add: status_def)

text \<open>
  C8 as stated fails: \<open>start\<close> on a connected controller arms the reconnect timer, the
  derived status is then \<open>Connecting\<close>, not \<open>Open\<close>, and \<open>sendText\<close> still transmits.
\<close>

theorem sendText_not_Open_counterexample:
  "status (fst (start \<lparr>m_webSocket = ConnectedState, m_reconnectTimer = False\<rparr>)) \<noteq> Open
   \<and> sendText (fst (start \<lparr>m_webSocket = ConnectedState, m_reconnectTimer = False\<rparr>)) ''hello''
       = [SendTextMessage
           (JObject [(''data'', JObject [(''utterances'', JArray [JString ''hello''])]),
                     (''type'', JString ''recognizer_loop:utterance'')])]"
  by (simp add: start_def status_def sendText_def sendRequest_def)

end
